theory Spec2Isabelle
  imports Complex_Main "HOL-Library.Word"
begin

unbundle bit_operations_syntax

section \<open>Numbers, vectors and bounds\<close>

text \<open>
  JavaScript numbers are modelled as \<^typ>\<open>real\<close>: arithmetic is exact, rounding and the
  infinities of IEEE-754 are left out. Where the source can produce \<open>NaN\<close> or
  \<open>undefined\<close> from finite operands (the quotient \<open>0 / 0\<close>, a read past the end of an
  array) the model says so with an explicit value, see \<open>jsnum\<close> below.

  \<open>Vec3\<close> objects \<open>{x, y, z}\<close> are the record \<open>vec3\<close> with fields \<open>vx\<close>, \<open>vy\<close>, \<open>vz\<close>;
  \<open>Bounds3D\<close> objects \<open>{min, max}\<close> are the record \<open>bounds3d\<close> with fields \<open>bmin\<close>,
  \<open>bmax\<close>.
\<close>

record vec3 =
  vx :: real
  vy :: real
  vz :: real

record bounds3d =
  bmin :: vec3
  bmax :: vec3

definition Vec3_create :: "real \<Rightarrow> real \<Rightarrow> real \<Rightarrow> vec3" where
  "Vec3_create a b c = \<lparr>vx = a, vy = b, vz = c\<rparr>"

definition Vec3_add :: "vec3 \<Rightarrow> vec3 \<Rightarrow> vec3" where
  "Vec3_add a b = \<lparr>vx = vx a + vx b, vy = vy a + vy b, vz = vz a + vz b\<rparr>"

definition Vec3_sub :: "vec3 \<Rightarrow> vec3 \<Rightarrow> vec3" where
  "Vec3_sub a b = \<lparr>vx = vx a - vx b, vy = vy a - vy b, vz = vz a - vz b\<rparr>"

definition Vec3_mul :: "vec3 \<Rightarrow> real \<Rightarrow> vec3" where
  "Vec3_mul v s = \<lparr>vx = vx v * s, vy = vy v * s, vz = vz v * s\<rparr>"

definition Vec3_dot :: "vec3 \<Rightarrow> vec3 \<Rightarrow> real" where
  "Vec3_dot a b = vx a * vx b + vy a * vy b + vz a * vz b"


definition Vec3_length :: "vec3 \<Rightarrow> real" where
  "Vec3_length v = sqrt (vx v * vx v + vy v * vy v + vz v * vz v)"

definition Vec3_normalize :: "vec3 \<Rightarrow> vec3" where
  "Vec3_normalize v =
     (let len = Vec3_length v
      in if len > 0 then Vec3_mul v (1 / len) else \<lparr>vx = 0, vy = 0, vz = 0\<rparr>)"

definition Vec3_distance :: "vec3 \<Rightarrow> vec3 \<Rightarrow> real" where
  "Vec3_distance a b = Vec3_length (Vec3_sub a b)"

definition Bounds_contains :: "bounds3d \<Rightarrow> vec3 \<Rightarrow> bool" where
  "Bounds_contains b p \<longleftrightarrow>
     vx p \<ge> vx (bmin b) \<and> vx p \<le> vx (bmax b) \<and>
     vy p \<ge> vy (bmin b) \<and> vy p \<le> vy (bmax b) \<and>
     vz p \<ge> vz (bmin b) \<and> vz p \<le> vz (bmax b)"

definition Bounds_isValid :: "bounds3d \<Rightarrow> bool" where
  "Bounds_isValid b \<longleftrightarrow>
     vx (bmin b) \<le> vx (bmax b) \<and>
     vy (bmin b) \<le> vy (bmax b) \<and>
     vz (bmin b) \<le> vz (bmax b)"

section \<open>Fields\<close>

text \<open>
  A \<open>Field\<close> object carries its evaluation closure \<open>_evaluate\<close>, its \<open>_bounds\<close> (which
  may be \<open>null\<close>) and its metadata, of which the type tag and the complexity are kept.
  A \<open>throw new Error(msg)\<close> is the value \<open>Inl (Error msg)\<close>.
\<close>

record field =
  evaluate :: "vec3 \<Rightarrow> real"
  fbounds :: "bounds3d option"
  ftype :: string
  complexity :: nat

datatype error =
    Error string
  | MemoryLimitError nat "int option"
  | RangeError

definition field_bounds :: "field \<Rightarrow> bounds3d" where
  \<comment> \<open>\<open>Field.bounds()\<close>: a field without bounds reports the box \<open>[-1000, 1000]\<^sup>3\<close>.\<close>
  "field_bounds f =
     (case fbounds f of
        None \<Rightarrow> \<lparr>bmin = \<lparr>vx = -1000, vy = -1000, vz = -1000\<rparr>,
                 bmax = \<lparr>vx = 1000, vy = 1000, vz = 1000\<rparr>\<rparr>
      | Some b \<Rightarrow> b)"

definition field_gradient :: "field \<Rightarrow> vec3 \<Rightarrow> real \<Rightarrow> vec3" where
  \<comment> \<open>\<open>Field._gradient(p, epsilon)\<close>: central differences, normalised.\<close>
  "field_gradient f p epsilon =
     (let dx = evaluate f (p\<lparr>vx := vx p + epsilon\<rparr>) - evaluate f (p\<lparr>vx := vx p - epsilon\<rparr>);
          dy = evaluate f (p\<lparr>vy := vy p + epsilon\<rparr>) - evaluate f (p\<lparr>vy := vy p - epsilon\<rparr>);
          dz = evaluate f (p\<lparr>vz := vz p + epsilon\<rparr>) - evaluate f (p\<lparr>vz := vz p - epsilon\<rparr>)
      in Vec3_normalize
           \<lparr>vx = dx / (2 * epsilon), vy = dy / (2 * epsilon), vz = dz / (2 * epsilon)\<rparr>)"

section \<open>Primitives\<close>

text \<open>
  The \<open>size\<close> parameter of \<open>Primitives.box\<close> is written \<open>dims\<close>, and the \<open>end\<close>
  parameter of the cylinder and the capsule \<open>endPt\<close>.
\<close>

definition sphere_evaluate :: "vec3 \<Rightarrow> real \<Rightarrow> vec3 \<Rightarrow> real" where
  "sphere_evaluate center radius p = Vec3_distance p center - radius"

definition sphere :: "vec3 \<Rightarrow> real \<Rightarrow> error + field" where
  "sphere center radius =
     (if radius \<le> 0 then Inl (Error ''Sphere radius must be positive'')
      else Inr \<lparr>evaluate = sphere_evaluate center radius,
                fbounds = Some \<lparr>bmin = Vec3_sub center \<lparr>vx = radius, vy = radius, vz = radius\<rparr>,
                                bmax = Vec3_add center \<lparr>vx = radius, vy = radius, vz = radius\<rparr>\<rparr>,
                ftype = ''sphere'', complexity = 1\<rparr>)"

definition box_evaluate :: "vec3 \<Rightarrow> vec3 \<Rightarrow> vec3 \<Rightarrow> real" where
  "box_evaluate center dims p =
     (let halfSize = Vec3_mul dims 0.5;
          dx = \<bar>vx p - vx center\<bar> - vx halfSize;
          dy = \<bar>vy p - vy center\<bar> - vy halfSize;
          dz = \<bar>vz p - vz center\<bar> - vz halfSize;
          outside = Vec3_length \<lparr>vx = max dx 0, vy = max dy 0, vz = max dz 0\<rparr>;
          inside = min (max dx (max dy dz)) 0
      in outside + inside)"

definition box :: "vec3 \<Rightarrow> vec3 \<Rightarrow> error + field" where
  "box center dims =
     (if vx dims \<le> 0 \<or> vy dims \<le> 0 \<or> vz dims \<le> 0
      then Inl (Error ''Box dimensions must be positive'')
      else Inr \<lparr>evaluate = box_evaluate center dims,
                fbounds = Some \<lparr>bmin = Vec3_sub center (Vec3_mul dims 0.5),
                                bmax = Vec3_add center (Vec3_mul dims 0.5)\<rparr>,
                ftype = ''box'', complexity = 1\<rparr>)"

definition cylinder_evaluate :: "vec3 \<Rightarrow> vec3 \<Rightarrow> real \<Rightarrow> vec3 \<Rightarrow> real" where
  "cylinder_evaluate start endPt radius p =
     (let axis = Vec3_normalize (Vec3_sub endPt start);
          height = Vec3_distance start endPt;
          v = Vec3_sub p start;
          proj = Vec3_dot v axis;
          projPoint = Vec3_add start (Vec3_mul axis proj);
          vecToAxis = Vec3_sub p projPoint;
          distToSide = Vec3_length vecToAxis - radius;
          distToTop = proj - height;
          distToBottom = - proj;
          distToCap = max distToTop distToBottom
      in if proj \<ge> 0 \<and> proj \<le> height
         then (if distToSide < 0 then max distToSide distToCap else distToSide)
         else (let outsideDist = sqrt ((max distToSide 0)\<^sup>2 + (max distToCap 0)\<^sup>2);
                   insideDist = min (max distToSide distToCap) 0
               in outsideDist + insideDist))"

definition cylinder :: "vec3 \<Rightarrow> vec3 \<Rightarrow> real \<Rightarrow> error + field" where
  "cylinder start endPt radius =
     (if radius \<le> 0 then Inl (Error ''Cylinder radius must be positive'')
      else if Vec3_distance start endPt < 0.0001
      then Inl (Error ''Cylinder start and end must be different'')
      else Inr \<lparr>evaluate = cylinder_evaluate start endPt radius,
                fbounds = Some
                  \<lparr>bmin = \<lparr>vx = min (vx start) (vx endPt) - radius,
                           vy = min (vy start) (vy endPt) - radius,
                           vz = min (vz start) (vz endPt) - radius\<rparr>,
                   bmax = \<lparr>vx = max (vx start) (vx endPt) + radius,
                           vy = max (vy start) (vy endPt) + radius,
                           vz = max (vz start) (vz endPt) + radius\<rparr>\<rparr>,
                ftype = ''cylinder'', complexity = 2\<rparr>)"

definition cone_evaluate :: "vec3 \<Rightarrow> vec3 \<Rightarrow> real \<Rightarrow> vec3 \<Rightarrow> real" where
  "cone_evaluate base tip radius p =
     (let axis = Vec3_normalize (Vec3_sub tip base);
          height = Vec3_distance base tip;
          v = Vec3_sub p base;
          proj = Vec3_dot v axis;
          projPoint = Vec3_add base (Vec3_mul axis proj);
          vecToAxis = Vec3_sub p projPoint;
          distFromAxis = Vec3_length vecToAxis;
          t = proj / height;
          coneRadius = radius * (1 - t);
          distToBase = - proj;
          distToTip = proj - height
      in if proj < 0
         then (let distToConeSurface = distFromAxis - radius
               in sqrt ((max distToConeSurface 0)\<^sup>2 + (max distToBase 0)\<^sup>2)
                  + min (max distToConeSurface distToBase) 0)
         else if proj > height then Vec3_distance p tip
         else (let distToSlope = distFromAxis - coneRadius;
                   distToCap = max distToBase distToTip
               in if distToSlope < 0 \<and> distToCap < 0 then max distToSlope distToCap
                  else sqrt ((max distToSlope 0)\<^sup>2 + (max distToCap 0)\<^sup>2)
                       + min (max distToSlope distToCap) 0))"

definition cone :: "vec3 \<Rightarrow> vec3 \<Rightarrow> real \<Rightarrow> error + field" where
  "cone base tip radius =
     (if radius \<le> 0 then Inl (Error ''Cone radius must be positive'')
      else if Vec3_distance base tip < 0.0001
      then Inl (Error ''Cone base and tip must be different'')
      else Inr \<lparr>evaluate = cone_evaluate base tip radius,
                fbounds = Some
                  \<lparr>bmin = \<lparr>vx = min (vx base - radius) (vx tip),
                           vy = min (vy base - radius) (vy tip),
                           vz = min (vz base - radius) (vz tip)\<rparr>,
                   bmax = \<lparr>vx = max (vx base + radius) (vx tip),
                           vy = max (vy base + radius) (vy tip),
                           vz = max (vz base + radius) (vz tip)\<rparr>\<rparr>,
                ftype = ''cone'', complexity = 2\<rparr>)"

definition capsule_evaluate :: "vec3 \<Rightarrow> vec3 \<Rightarrow> real \<Rightarrow> vec3 \<Rightarrow> real" where
  "capsule_evaluate start endPt radius p =
     (let lineVec = Vec3_sub endPt start;
          lineLength = Vec3_length lineVec;
          lineDir = Vec3_normalize lineVec;
          v = Vec3_sub p start;
          proj = Vec3_dot v lineDir;
          t = max 0 (min lineLength proj);
          closest = Vec3_add start (Vec3_mul lineDir t)
      in Vec3_distance p closest - radius)"

definition capsule :: "vec3 \<Rightarrow> vec3 \<Rightarrow> real \<Rightarrow> error + field" where
  "capsule start endPt radius =
     (if radius \<le> 0 then Inl (Error ''Capsule radius must be positive'')
      else Inr \<lparr>evaluate = capsule_evaluate start endPt radius,
                fbounds = Some
                  \<lparr>bmin = \<lparr>vx = min (vx start) (vx endPt) - radius,
                           vy = min (vy start) (vy endPt) - radius,
                           vz = min (vz start) (vz endPt) - radius\<rparr>,
                   bmax = \<lparr>vx = max (vx start) (vx endPt) + radius,
                           vy = max (vy start) (vy endPt) + radius,
                           vz = max (vz start) (vz endPt) + radius\<rparr>\<rparr>,
                ftype = ''capsule'', complexity = 1\<rparr>)"

definition implicit :: "(real \<Rightarrow> real \<Rightarrow> real \<Rightarrow> real) \<Rightarrow> bounds3d option \<Rightarrow> field" where
  \<comment> \<open>\<open>Primitives.implicit(fn, bounds)\<close>; that \<open>fn\<close> is a function is its type\<close>
  "implicit fn bounds =
     \<lparr>evaluate = (\<lambda>p. fn (vx p) (vy p) (vz p)), fbounds = bounds,
      ftype = ''implicit'', complexity = 3\<rparr>"

section \<open>Boolean combinators\<close>

definition difference :: "field \<Rightarrow> field \<Rightarrow> field" where
  "difference a b =
     \<lparr>evaluate = (\<lambda>p. max (evaluate a p) (- evaluate b p)),
      fbounds = Some (field_bounds a),
      ftype = ''difference'',
      complexity = complexity a + complexity b\<rparr>"

text \<open>
  \<open>Boolean._smoothMin(values, k)\<close> and \<open>Boolean._smoothMax(values, k)\<close>: the loop over
  \<open>values[1..]\<close> with the accumulator \<open>res\<close>. On an empty array the source returns
  \<open>values[0]\<close>, which is \<open>undefined\<close>: the value \<open>None\<close>. The quotient by \<open>k\<close> is the
  source's for \<open>k \<noteq> 0\<close>.
\<close>

fun smoothMin_loop :: "real \<Rightarrow> real list \<Rightarrow> real \<Rightarrow> real" where
  "smoothMin_loop res [] k = res"
| "smoothMin_loop res (v # vs) k =
     (let h = max (k - \<bar>res - v\<bar>) 0 / k
      in smoothMin_loop (min res v - h * h * k * 0.25) vs k)"

definition smoothMin :: "real list \<Rightarrow> real \<Rightarrow> real option" where
  "smoothMin values k =
     (case values of
        [] \<Rightarrow> None
      | [v] \<Rightarrow> Some v
      | v # vs \<Rightarrow> Some (smoothMin_loop v vs k))"

fun smoothMax_loop :: "real \<Rightarrow> real list \<Rightarrow> real \<Rightarrow> real" where
  "smoothMax_loop res [] k = res"
| "smoothMax_loop res (v # vs) k =
     (let h = max (k - \<bar>res - v\<bar>) 0 / k
      in smoothMax_loop (max res v + h * h * k * 0.25) vs k)"

definition smoothMax :: "real list \<Rightarrow> real \<Rightarrow> real option" where
  "smoothMax values k =
     (case values of
        [] \<Rightarrow> None
      | [v] \<Rightarrow> Some v
      | v # vs \<Rightarrow> Some (smoothMax_loop v vs k))"

section \<open>Transforms\<close>

text \<open>
  \<open>Transform.scale(field, scale, center)\<close>. The \<open>scale\<close> argument is a number or a vector;
  \<open>center\<close> is passed explicitly (the source defaults it to the origin). The
  \<open>console.warn\<close> for a non-uniform scale is not part of the returned value; it is
  printed exactly when \<open>scale_isUniform\<close> is false.
\<close>

datatype scale_arg = ScaleNumber real | ScaleVector vec3

fun scale_factors :: "scale_arg \<Rightarrow> vec3" where
  "scale_factors (ScaleNumber n) = \<lparr>vx = n, vy = n, vz = n\<rparr>"
| "scale_factors (ScaleVector v) = v"

definition scale_isUniform :: "vec3 \<Rightarrow> bool" where
  "scale_isUniform s \<longleftrightarrow> \<bar>vx s - vy s\<bar> < 0.001 \<and> \<bar>vy s - vz s\<bar> < 0.001"

definition scale_evaluate :: "field \<Rightarrow> vec3 \<Rightarrow> vec3 \<Rightarrow> vec3 \<Rightarrow> real" where
  "scale_evaluate f s center p =
     (let minScale = min (vx s) (min (vy s) (vz s));
          translated = Vec3_sub p center;
          scaled = \<lparr>vx = vx translated / vx s, vy = vy translated / vy s,
                    vz = vz translated / vz s\<rparr>;
          backTranslated = Vec3_add scaled center
      in evaluate f backTranslated * minScale)"

definition scale :: "field \<Rightarrow> scale_arg \<Rightarrow> vec3 \<Rightarrow> error + field" where
  "scale f sc center =
     (let s = scale_factors sc
      in if vx s \<le> 0 \<or> vy s \<le> 0 \<or> vz s \<le> 0
         then Inl (Error ''Scale factors must be positive'')
         else (let b = field_bounds f
               in Inr \<lparr>evaluate = scale_evaluate f s center,
                        fbounds = Some
                          \<lparr>bmin = \<lparr>vx = vx center + (vx (bmin b) - vx center) * vx s,
                                   vy = vy center + (vy (bmin b) - vy center) * vy s,
                                   vz = vz center + (vz (bmin b) - vz center) * vz s\<rparr>,
                           bmax = \<lparr>vx = vx center + (vx (bmax b) - vx center) * vx s,
                                   vy = vy center + (vy (bmax b) - vy center) * vy s,
                                   vz = vz center + (vz (bmax b) - vz center) * vz s\<rparr>\<rparr>,
                        ftype = ''scale('' @ ftype f @ '')'',
                        complexity = complexity f\<rparr>))"

section \<open>Lattices\<close>

text \<open>
  Each of the six lattice constructors opens its evaluation closure with the same block:
  the test whether the point lies outside the declared bounds, and there the distance to
  the bounding box. The block is written once, as \<open>lattice_outside\<close> and
  \<open>lattice_box_distance\<close>. The constructors just store the closure, the bounds and the
  metadata, and perform no checks.

  \<open>js_rem\<close> is the remainder operator \<open>%\<close> on numbers (the quotient truncated towards
  zero), for a divisor other than zero.
\<close>

definition lattice_outside :: "bounds3d \<Rightarrow> vec3 \<Rightarrow> bool" where
  "lattice_outside bounds p \<longleftrightarrow>
     vx p < vx (bmin bounds) \<or> vx p > vx (bmax bounds) \<or>
     vy p < vy (bmin bounds) \<or> vy p > vy (bmax bounds) \<or>
     vz p < vz (bmin bounds) \<or> vz p > vz (bmax bounds)"

definition lattice_box_distance :: "bounds3d \<Rightarrow> vec3 \<Rightarrow> real" where
  "lattice_box_distance bounds p =
     (let dx = max (vx (bmin bounds) - vx p) (max (vx p - vx (bmax bounds)) 0);
          dy = max (vy (bmin bounds) - vy p) (max (vy p - vy (bmax bounds)) 0);
          dz = max (vz (bmin bounds) - vz p) (max (vz p - vz (bmax bounds)) 0)
      in sqrt (dx * dx + dy * dy + dz * dz))"

definition js_rem :: "real \<Rightarrow> real \<Rightarrow> real" where
  "js_rem a b = a - b * of_int (if a / b < 0 then \<lceil>a / b\<rceil> else \<lfloor>a / b\<rfloor>)"

definition gyroid_evaluate :: "bounds3d \<Rightarrow> real \<Rightarrow> real \<Rightarrow> vec3 \<Rightarrow> real" where
  "gyroid_evaluate bounds cellSize thickness p =
     (let freq = (2 * pi) / cellSize
      in if lattice_outside bounds p then lattice_box_distance bounds p
         else (let v = sin (vx p * freq) * cos (vy p * freq) +
                       sin (vy p * freq) * cos (vz p * freq) +
                       sin (vz p * freq) * cos (vx p * freq)
               in \<bar>v\<bar> - thickness))"

definition schwarzP_evaluate :: "bounds3d \<Rightarrow> real \<Rightarrow> real \<Rightarrow> vec3 \<Rightarrow> real" where
  "schwarzP_evaluate bounds cellSize thickness p =
     (let freq = (2 * pi) / cellSize
      in if lattice_outside bounds p then lattice_box_distance bounds p
         else (let v = cos (vx p * freq) + cos (vy p * freq) + cos (vz p * freq)
               in \<bar>v\<bar> - thickness))"

definition diamond_evaluate :: "bounds3d \<Rightarrow> real \<Rightarrow> real \<Rightarrow> vec3 \<Rightarrow> real" where
  "diamond_evaluate bounds cellSize thickness p =
     (let freq = (2 * pi) / cellSize
      in if lattice_outside bounds p then lattice_box_distance bounds p
         else (let v = sin (vx p * freq) * sin (vy p * freq) * sin (vz p * freq) +
                       sin (vx p * freq) * cos (vy p * freq) * cos (vz p * freq) +
                       cos (vx p * freq) * sin (vy p * freq) * cos (vz p * freq) +
                       cos (vx p * freq) * cos (vy p * freq) * sin (vz p * freq)
               in \<bar>v\<bar> - thickness))"

definition schwarzD_evaluate :: "bounds3d \<Rightarrow> real \<Rightarrow> real \<Rightarrow> vec3 \<Rightarrow> real" where
  "schwarzD_evaluate bounds cellSize thickness p =
     (let freq = (2 * pi) / cellSize
      in if lattice_outside bounds p then lattice_box_distance bounds p
         else (let v = sin (vx p * freq) * sin (vy p * freq) * sin (vz p * freq) -
                       sin (vx p * freq) * cos (vy p * freq) * cos (vz p * freq) -
                       cos (vx p * freq) * sin (vy p * freq) * cos (vz p * freq) -
                       cos (vx p * freq) * cos (vy p * freq) * sin (vz p * freq)
               in \<bar>v\<bar> - thickness))"

definition cubic_evaluate :: "bounds3d \<Rightarrow> real \<Rightarrow> real \<Rightarrow> vec3 \<Rightarrow> real" where
  "cubic_evaluate bounds cellSize beamThickness p =
     (if lattice_outside bounds p then lattice_box_distance bounds p
      else (let mx = js_rem (js_rem (vx p) cellSize + cellSize) cellSize;
                my = js_rem (js_rem (vy p) cellSize + cellSize) cellSize;
                mz = js_rem (js_rem (vz p) cellSize + cellSize) cellSize;
                dx = min mx (cellSize - mx);
                dy = min my (cellSize - my);
                dz = min mz (cellSize - mz)
            in min (sqrt (dy * dy + dz * dz))
                 (min (sqrt (dx * dx + dz * dz)) (sqrt (dx * dx + dy * dy)))
               - beamThickness))"

definition octet_evaluate :: "bounds3d \<Rightarrow> real \<Rightarrow> real \<Rightarrow> vec3 \<Rightarrow> real" where
  "octet_evaluate bounds cellSize beamThickness p =
     (if lattice_outside bounds p then lattice_box_distance bounds p
      else (let s = cellSize;
                mx = js_rem (js_rem (vx p) s + s) s;
                my = js_rem (js_rem (vy p) s + s) s;
                mz = js_rem (js_rem (vz p) s + s) s;
                d1 = \<bar>mx + my - s\<bar> / sqrt 2;
                d2 = \<bar>mx - my\<bar> / sqrt 2;
                d3 = \<bar>my + mz - s\<bar> / sqrt 2;
                d4 = \<bar>my - mz\<bar> / sqrt 2;
                d5 = \<bar>mz + mx - s\<bar> / sqrt 2;
                d6 = \<bar>mz - mx\<bar> / sqrt 2
            in min d1 (min d2 (min d3 (min d4 (min d5 d6)))) - beamThickness))"

definition lattice_field :: "(vec3 \<Rightarrow> real) \<Rightarrow> bounds3d \<Rightarrow> string \<Rightarrow> nat \<Rightarrow> field" where
  "lattice_field ev bounds kind cost =
     \<lparr>evaluate = ev, fbounds = Some bounds, ftype = kind, complexity = cost\<rparr>"

definition gyroid :: "bounds3d \<Rightarrow> real \<Rightarrow> real \<Rightarrow> field" where
  "gyroid bounds cellSize thickness =
     lattice_field (gyroid_evaluate bounds cellSize thickness) bounds ''gyroid'' 3"

definition schwarzP :: "bounds3d \<Rightarrow> real \<Rightarrow> real \<Rightarrow> field" where
  "schwarzP bounds cellSize thickness =
     lattice_field (schwarzP_evaluate bounds cellSize thickness) bounds ''schwarzP'' 3"

definition diamond :: "bounds3d \<Rightarrow> real \<Rightarrow> real \<Rightarrow> field" where
  "diamond bounds cellSize thickness =
     lattice_field (diamond_evaluate bounds cellSize thickness) bounds ''diamond'' 4"

definition schwarzD :: "bounds3d \<Rightarrow> real \<Rightarrow> real \<Rightarrow> field" where
  "schwarzD bounds cellSize thickness =
     lattice_field (schwarzD_evaluate bounds cellSize thickness) bounds ''schwarzD'' 4"

definition cubic :: "bounds3d \<Rightarrow> real \<Rightarrow> real \<Rightarrow> field" where
  "cubic bounds cellSize beamThickness =
     lattice_field (cubic_evaluate bounds cellSize beamThickness) bounds ''cubic'' 3"

definition octet :: "bounds3d \<Rightarrow> real \<Rightarrow> real \<Rightarrow> field" where
  "octet bounds cellSize beamThickness =
     lattice_field (octet_evaluate bounds cellSize beamThickness) bounds ''octet'' 4"

definition Vec3_clamp :: "vec3 \<Rightarrow> vec3 \<Rightarrow> vec3 \<Rightarrow> vec3" where
  "Vec3_clamp v lo hi =
     \<lparr>vx = max (vx lo) (min (vx hi) (vx v)),
      vy = max (vy lo) (min (vy hi) (vy v)),
      vz = max (vz lo) (min (vz hi) (vz v))\<rparr>"

section \<open>Marching cubes\<close>

text \<open>
  Coordinates that the mesher computes with a quotient are values of \<open>jsnum\<close>: a number
  or \<open>NaN\<close>. The operations propagate \<open>NaN\<close>, and \<open>0 / 0\<close> is \<open>NaN\<close>. (A number other
  than zero over zero would be an infinity, which the model does not have; the source
  divides by \<open>|v1| + |v2|\<close>, which is zero only together with the numerator, and by a
  length that it has tested to be positive.)
\<close>

datatype jsnum = Num real | NaN

fun js_add :: "jsnum \<Rightarrow> jsnum \<Rightarrow> jsnum" where
  "js_add (Num a) (Num b) = Num (a + b)"
| "js_add _ _ = NaN"

fun js_sub :: "jsnum \<Rightarrow> jsnum \<Rightarrow> jsnum" where
  "js_sub (Num a) (Num b) = Num (a - b)"
| "js_sub _ _ = NaN"

fun js_mul :: "jsnum \<Rightarrow> jsnum \<Rightarrow> jsnum" where
  "js_mul (Num a) (Num b) = Num (a * b)"
| "js_mul _ _ = NaN"

fun js_div :: "jsnum \<Rightarrow> jsnum \<Rightarrow> jsnum" where
  "js_div (Num a) (Num b) = (if b = 0 then NaN else Num (a / b))"
| "js_div _ _ = NaN"

fun js_sqrt :: "jsnum \<Rightarrow> jsnum" where
  "js_sqrt (Num a) = (if a < 0 then NaN else Num (sqrt a))"
| "js_sqrt NaN = NaN"

fun js_positive :: "jsnum \<Rightarrow> bool" where
  \<comment> \<open>the test \<open>a > 0\<close>, false for \<open>NaN\<close>\<close>
  "js_positive (Num a) = (a > 0)"
| "js_positive NaN = False"

record jsvec3 =
  jx :: jsnum
  jy :: jsnum
  jz :: jsnum

definition to_vec3 :: "jsvec3 \<Rightarrow> vec3 option" where
  "to_vec3 p =
     (case (jx p, jy p, jz p) of
        (Num a, Num b, Num c) \<Rightarrow> Some \<lparr>vx = a, vy = b, vz = c\<rparr>
      | _ \<Rightarrow> None)"

subsection \<open>The lookup tables \<open>MarchingCubesTables\<close>\<close>

definition edgeTable :: "nat list" where
  "edgeTable =
     [
      0x0, 0x109, 0x203, 0x30a, 0x406, 0x50f, 0x605, 0x70c,
      0x80c, 0x905, 0xa0f, 0xb06, 0xc0a, 0xd03, 0xe09, 0xf00,
      0x190, 0x99, 0x393, 0x29a, 0x596, 0x49f, 0x795, 0x69c,
      0x99c, 0x895, 0xb9f, 0xa96, 0xd9a, 0xc93, 0xf99, 0xe90,
      0x230, 0x339, 0x33, 0x13a, 0x636, 0x73f, 0x435, 0x53c,
      0xa3c, 0xb35, 0x83f, 0x936, 0xe3a, 0xf33, 0xc39, 0xd30,
      0x3a0, 0x2a9, 0x1a3, 0xaa, 0x7a6, 0x6af, 0x5a5, 0x4ac,
      0xbac, 0xaa5, 0x9af, 0x8a6, 0xfaa, 0xea3, 0xda9, 0xca0,
      0x460, 0x569, 0x663, 0x76a, 0x66, 0x16f, 0x265, 0x36c,
      0xc6c, 0xd65, 0xe6f, 0xf66, 0x86a, 0x963, 0xa69, 0xb60,
      0x5f0, 0x4f9, 0x7f3, 0x6fa, 0x1f6, 0xff, 0x3f5, 0x2fc,
      0xdfc, 0xcf5, 0xfff, 0xef6, 0x9fa, 0x8f3, 0xbf9, 0xaf0,
      0x650, 0x759, 0x453, 0x55a, 0x256, 0x35f, 0x55, 0x15c,
      0xe5c, 0xf55, 0xc5f, 0xd56, 0xa5a, 0xb53, 0x859, 0x950,
      0x7c0, 0x6c9, 0x5c3, 0x4ca, 0x3c6, 0x2cf, 0x1c5, 0xcc,
      0xfcc, 0xec5, 0xdcf, 0xcc6, 0xbca, 0xac3, 0x9c9, 0x8c0,
      0x8c0, 0x9c9, 0xac3, 0xbca, 0xcc6, 0xdcf, 0xec5, 0xfcc,
      0xcc, 0x1c5, 0x2cf, 0x3c6, 0x4ca, 0x5c3, 0x6c9, 0x7c0,
      0x950, 0x859, 0xb53, 0xa5a, 0xd56, 0xc5f, 0xf55, 0xe5c,
      0x15c, 0x55, 0x35f, 0x256, 0x55a, 0x453, 0x759, 0x650,
      0xaf0, 0xbf9, 0x8f3, 0x9fa, 0xef6, 0xfff, 0xcf5, 0xdfc,
      0x2fc, 0x3f5, 0xff, 0x1f6, 0x6fa, 0x7f3, 0x4f9, 0x5f0,
      0xb60, 0xa69, 0x963, 0x86a, 0xf66, 0xe6f, 0xd65, 0xc6c,
      0x36c, 0x265, 0x16f, 0x66, 0x76a, 0x663, 0x569, 0x460,
      0xca0, 0xda9, 0xea3, 0xfaa, 0x8a6, 0x9af, 0xaa5, 0xbac,
      0x4ac, 0x5a5, 0x6af, 0x7a6, 0xaa, 0x1a3, 0x2a9, 0x3a0,
      0xd30, 0xc39, 0xf33, 0xe3a, 0x936, 0x83f, 0xb35, 0xa3c,
      0x53c, 0x435, 0x73f, 0x636, 0x13a, 0x33, 0x339, 0x230,
      0xe90, 0xf99, 0xc93, 0xd9a, 0xa96, 0xb9f, 0x895, 0x99c,
      0x69c, 0x795, 0x49f, 0x596, 0x29a, 0x393, 0x99, 0x190,
      0xf00, 0xe09, 0xd03, 0xc0a, 0xb06, 0xa0f, 0x905, 0x80c,
      0x70c, 0x605, 0x50f, 0x406, 0x30a, 0x203, 0x109, 0x0
     ]"

definition triTable :: "nat list list" where
  "triTable =
     [
      [],
      [0, 8, 3],
      [0, 1, 9],
      [1, 8, 3, 9, 8, 1],
      [1, 2, 10],
      [0, 8, 3, 1, 2, 10],
      [9, 2, 10, 0, 2, 9],
      [2, 8, 3, 2, 10, 8, 10, 9, 8],
      [3, 11, 2],
      [0, 11, 2, 8, 11, 0],
      [1, 9, 0, 2, 3, 11],
      [1, 11, 2, 1, 9, 11, 9, 8, 11],
      [3, 10, 1, 11, 10, 3],
      [0, 10, 1, 0, 8, 10, 8, 11, 10],
      [3, 9, 0, 3, 11, 9, 11, 10, 9],
      [9, 8, 10, 10, 8, 11],
      [4, 7, 8],
      [4, 3, 0, 7, 3, 4],
      [0, 1, 9, 8, 4, 7],
      [4, 1, 9, 4, 7, 1, 7, 3, 1],
      [1, 2, 10, 8, 4, 7],
      [3, 4, 7, 3, 0, 4, 1, 2, 10],
      [9, 2, 10, 9, 0, 2, 8, 4, 7],
      [2, 10, 9, 2, 9, 7, 2, 7, 3, 7, 9, 4],
      [8, 4, 7, 3, 11, 2],
      [11, 4, 7, 11, 2, 4, 2, 0, 4],
      [9, 0, 1, 8, 4, 7, 2, 3, 11],
      [4, 7, 11, 9, 4, 11, 9, 11, 2, 9, 2, 1],
      [3, 10, 1, 3, 11, 10, 7, 8, 4],
      [1, 11, 10, 1, 4, 11, 1, 0, 4, 7, 11, 4],
      [4, 7, 8, 9, 0, 11, 9, 11, 10, 11, 0, 3],
      [4, 7, 11, 4, 11, 9, 9, 11, 10],
      [9, 5, 4],
      [9, 5, 4, 0, 8, 3],
      [0, 5, 4, 1, 5, 0],
      [8, 5, 4, 8, 3, 5, 3, 1, 5],
      [1, 2, 10, 9, 5, 4],
      [3, 0, 8, 1, 2, 10, 4, 9, 5],
      [5, 2, 10, 5, 4, 2, 4, 0, 2],
      [2, 10, 5, 3, 2, 5, 3, 5, 4, 3, 4, 8],
      [9, 5, 4, 2, 3, 11],
      [0, 11, 2, 0, 8, 11, 4, 9, 5],
      [0, 5, 4, 0, 1, 5, 2, 3, 11],
      [2, 1, 5, 2, 5, 8, 2, 8, 11, 4, 8, 5],
      [10, 3, 11, 10, 1, 3, 9, 5, 4],
      [4, 9, 5, 0, 8, 1, 8, 10, 1, 8, 11, 10],
      [5, 4, 0, 5, 0, 11, 5, 11, 10, 11, 0, 3],
      [5, 4, 8, 5, 8, 10, 10, 8, 11],
      [9, 7, 8, 5, 7, 9],
      [9, 3, 0, 9, 5, 3, 5, 7, 3],
      [0, 7, 8, 0, 1, 7, 1, 5, 7],
      [1, 5, 3, 3, 5, 7],
      [9, 7, 8, 9, 5, 7, 10, 1, 2],
      [10, 1, 2, 9, 5, 0, 5, 3, 0, 5, 7, 3],
      [8, 0, 2, 8, 2, 5, 8, 5, 7, 10, 5, 2],
      [2, 10, 5, 2, 5, 3, 3, 5, 7],
      [7, 9, 5, 7, 8, 9, 3, 11, 2],
      [9, 5, 7, 9, 7, 2, 9, 2, 0, 2, 7, 11],
      [2, 3, 11, 0, 1, 8, 1, 7, 8, 1, 5, 7],
      [11, 2, 1, 11, 1, 7, 7, 1, 5],
      [9, 5, 8, 8, 5, 7, 10, 1, 3, 10, 3, 11],
      [5, 7, 0, 5, 0, 9, 7, 11, 0, 1, 0, 10, 11, 10, 0],
      [11, 10, 0, 11, 0, 3, 10, 5, 0, 8, 0, 7, 5, 7, 0],
      [11, 10, 5, 7, 11, 5],
      [10, 6, 5],
      [0, 8, 3, 5, 10, 6],
      [9, 0, 1, 5, 10, 6],
      [1, 8, 3, 1, 9, 8, 5, 10, 6],
      [1, 6, 5, 2, 6, 1],
      [1, 6, 5, 1, 2, 6, 3, 0, 8],
      [9, 6, 5, 9, 0, 6, 0, 2, 6],
      [5, 9, 8, 5, 8, 2, 5, 2, 6, 3, 2, 8],
      [2, 3, 11, 10, 6, 5],
      [11, 0, 8, 11, 2, 0, 10, 6, 5],
      [0, 1, 9, 2, 3, 11, 5, 10, 6],
      [5, 10, 6, 1, 9, 2, 9, 11, 2, 9, 8, 11],
      [6, 3, 11, 6, 5, 3, 5, 1, 3],
      [0, 8, 11, 0, 11, 5, 0, 5, 1, 5, 11, 6],
      [3, 11, 6, 0, 3, 6, 0, 6, 5, 0, 5, 9],
      [6, 5, 9, 6, 9, 11, 11, 9, 8],
      [5, 10, 6, 4, 7, 8],
      [4, 3, 0, 4, 7, 3, 6, 5, 10],
      [1, 9, 0, 5, 10, 6, 8, 4, 7],
      [10, 6, 5, 1, 9, 7, 1, 7, 3, 7, 9, 4],
      [6, 1, 2, 6, 5, 1, 4, 7, 8],
      [1, 2, 5, 5, 2, 6, 3, 0, 4, 3, 4, 7],
      [8, 4, 7, 9, 0, 5, 0, 6, 5, 0, 2, 6],
      [7, 3, 9, 7, 9, 4, 3, 2, 9, 5, 9, 6, 2, 6, 9],
      [3, 11, 2, 7, 8, 4, 10, 6, 5],
      [5, 10, 6, 4, 7, 2, 4, 2, 0, 2, 7, 11],
      [0, 1, 9, 4, 7, 8, 2, 3, 11, 5, 10, 6],
      [9, 2, 1, 9, 11, 2, 9, 4, 11, 7, 11, 4, 5, 10, 6],
      [8, 4, 7, 3, 11, 5, 3, 5, 1, 5, 11, 6],
      [5, 1, 11, 5, 11, 6, 1, 0, 11, 7, 11, 4, 0, 4, 11],
      [0, 5, 9, 0, 6, 5, 0, 3, 6, 11, 6, 3, 8, 4, 7],
      [6, 5, 9, 6, 9, 11, 4, 7, 9, 7, 11, 9],
      [10, 4, 9, 6, 4, 10],
      [4, 10, 6, 4, 9, 10, 0, 8, 3],
      [10, 0, 1, 10, 6, 0, 6, 4, 0],
      [8, 3, 1, 8, 1, 6, 8, 6, 4, 6, 1, 10],
      [1, 4, 9, 1, 2, 4, 2, 6, 4],
      [3, 0, 8, 1, 2, 9, 2, 4, 9, 2, 6, 4],
      [0, 2, 4, 4, 2, 6],
      [8, 3, 2, 8, 2, 4, 4, 2, 6],
      [10, 4, 9, 10, 6, 4, 11, 2, 3],
      [0, 8, 2, 2, 8, 11, 4, 9, 10, 4, 10, 6],
      [3, 11, 2, 0, 1, 6, 0, 6, 4, 6, 1, 10],
      [6, 4, 1, 6, 1, 10, 4, 8, 1, 2, 1, 11, 8, 11, 1],
      [9, 6, 4, 9, 3, 6, 9, 1, 3, 11, 6, 3],
      [8, 11, 1, 8, 1, 0, 11, 6, 1, 9, 1, 4, 6, 4, 1],
      [3, 11, 6, 3, 6, 0, 0, 6, 4],
      [6, 4, 8, 11, 6, 8],
      [7, 10, 6, 7, 8, 10, 8, 9, 10],
      [0, 7, 3, 0, 10, 7, 0, 9, 10, 6, 7, 10],
      [10, 6, 7, 1, 10, 7, 1, 7, 8, 1, 8, 0],
      [10, 6, 7, 10, 7, 1, 1, 7, 3],
      [1, 2, 6, 1, 6, 8, 1, 8, 9, 8, 6, 7],
      [2, 6, 9, 2, 9, 1, 6, 7, 9, 0, 9, 3, 7, 3, 9],
      [7, 8, 0, 7, 0, 6, 6, 0, 2],
      [7, 3, 2, 6, 7, 2],
      [2, 3, 11, 10, 6, 8, 10, 8, 9, 8, 6, 7],
      [2, 0, 7, 2, 7, 11, 0, 9, 7, 6, 7, 10, 9, 10, 7],
      [1, 8, 0, 1, 7, 8, 1, 10, 7, 6, 7, 10, 2, 3, 11],
      [11, 2, 1, 11, 1, 7, 10, 6, 1, 6, 7, 1],
      [8, 9, 6, 8, 6, 7, 9, 1, 6, 11, 6, 3, 1, 3, 6],
      [0, 9, 1, 11, 6, 7],
      [7, 8, 0, 7, 0, 6, 3, 11, 0, 11, 6, 0],
      [7, 11, 6],
      [7, 6, 11],
      [3, 0, 8, 11, 7, 6],
      [0, 1, 9, 11, 7, 6],
      [8, 1, 9, 8, 3, 1, 11, 7, 6],
      [10, 1, 2, 6, 11, 7],
      [1, 2, 10, 3, 0, 8, 6, 11, 7],
      [2, 9, 0, 2, 10, 9, 6, 11, 7],
      [6, 11, 7, 2, 10, 3, 10, 8, 3, 10, 9, 8],
      [7, 2, 3, 6, 2, 7],
      [7, 0, 8, 7, 6, 0, 6, 2, 0],
      [2, 7, 6, 2, 3, 7, 0, 1, 9],
      [1, 6, 2, 1, 8, 6, 1, 9, 8, 8, 7, 6],
      [10, 7, 6, 10, 1, 7, 1, 3, 7],
      [10, 7, 6, 1, 7, 10, 1, 8, 7, 1, 0, 8],
      [0, 3, 7, 0, 7, 10, 0, 10, 9, 6, 10, 7],
      [7, 6, 10, 7, 10, 8, 8, 10, 9],
      [6, 8, 4, 11, 8, 6],
      [3, 6, 11, 3, 0, 6, 0, 4, 6],
      [8, 6, 11, 8, 4, 6, 9, 0, 1],
      [9, 4, 6, 9, 6, 3, 9, 3, 1, 11, 3, 6],
      [6, 8, 4, 6, 11, 8, 2, 10, 1],
      [1, 2, 10, 3, 0, 11, 0, 6, 11, 0, 4, 6],
      [4, 11, 8, 4, 6, 11, 0, 2, 9, 2, 10, 9],
      [10, 9, 3, 10, 3, 2, 9, 4, 3, 11, 3, 6, 4, 6, 3],
      [8, 2, 3, 8, 4, 2, 4, 6, 2],
      [0, 4, 2, 4, 6, 2],
      [1, 9, 0, 2, 3, 4, 2, 4, 6, 4, 3, 8],
      [1, 9, 4, 1, 4, 2, 2, 4, 6],
      [8, 1, 3, 8, 6, 1, 8, 4, 6, 6, 10, 1],
      [10, 1, 0, 10, 0, 6, 6, 0, 4],
      [4, 6, 3, 4, 3, 8, 6, 10, 3, 0, 3, 9, 10, 9, 3],
      [10, 9, 4, 6, 10, 4],
      [4, 9, 5, 7, 6, 11],
      [0, 8, 3, 4, 9, 5, 11, 7, 6],
      [5, 0, 1, 5, 4, 0, 7, 6, 11],
      [11, 7, 6, 8, 3, 4, 3, 5, 4, 3, 1, 5],
      [9, 5, 4, 10, 1, 2, 7, 6, 11],
      [6, 11, 7, 1, 2, 10, 0, 8, 3, 4, 9, 5],
      [7, 6, 11, 5, 4, 10, 4, 2, 10, 4, 0, 2],
      [3, 4, 8, 3, 5, 4, 3, 2, 5, 10, 5, 2, 11, 7, 6],
      [7, 2, 3, 7, 6, 2, 5, 4, 9],
      [9, 5, 4, 0, 8, 6, 0, 6, 2, 6, 8, 7],
      [3, 6, 2, 3, 7, 6, 1, 5, 0, 5, 4, 0],
      [6, 2, 8, 6, 8, 7, 2, 1, 8, 4, 8, 5, 1, 5, 8],
      [9, 5, 4, 10, 1, 6, 1, 7, 6, 1, 3, 7],
      [1, 6, 10, 1, 7, 6, 1, 0, 7, 8, 7, 0, 9, 5, 4],
      [4, 0, 10, 4, 10, 5, 0, 3, 10, 6, 10, 7, 3, 7, 10],
      [7, 6, 10, 7, 10, 8, 5, 4, 10, 4, 8, 10],
      [6, 9, 5, 6, 11, 9, 11, 8, 9],
      [3, 6, 11, 0, 6, 3, 0, 5, 6, 0, 9, 5],
      [0, 11, 8, 0, 5, 11, 0, 1, 5, 5, 6, 11],
      [6, 11, 3, 6, 3, 5, 5, 3, 1],
      [1, 2, 10, 9, 5, 11, 9, 11, 8, 11, 5, 6],
      [0, 11, 3, 0, 6, 11, 0, 9, 6, 5, 6, 9, 1, 2, 10],
      [11, 8, 5, 11, 5, 6, 8, 0, 5, 10, 5, 2, 0, 2, 5],
      [6, 11, 3, 6, 3, 5, 2, 10, 3, 10, 5, 3],
      [5, 8, 9, 5, 2, 8, 5, 6, 2, 3, 8, 2],
      [9, 5, 6, 9, 6, 0, 0, 6, 2],
      [1, 5, 8, 1, 8, 0, 5, 6, 8, 3, 8, 2, 6, 2, 8],
      [1, 5, 6, 2, 1, 6],
      [1, 3, 6, 1, 6, 10, 3, 8, 6, 5, 6, 9, 8, 9, 6],
      [10, 1, 0, 10, 0, 6, 9, 5, 0, 5, 6, 0],
      [0, 3, 8, 5, 6, 10],
      [10, 5, 6],
      [11, 5, 10, 7, 5, 11],
      [11, 5, 10, 11, 7, 5, 8, 3, 0],
      [5, 11, 7, 5, 10, 11, 1, 9, 0],
      [10, 7, 5, 10, 11, 7, 9, 8, 1, 8, 3, 1],
      [11, 1, 2, 11, 7, 1, 7, 5, 1],
      [0, 8, 3, 1, 2, 7, 1, 7, 5, 7, 2, 11],
      [9, 7, 5, 9, 2, 7, 9, 0, 2, 2, 11, 7],
      [7, 5, 2, 7, 2, 11, 5, 9, 2, 3, 2, 8, 9, 8, 2],
      [2, 5, 10, 2, 3, 5, 3, 7, 5],
      [8, 2, 0, 8, 5, 2, 8, 7, 5, 10, 2, 5],
      [9, 0, 1, 5, 10, 3, 5, 3, 7, 3, 10, 2],
      [9, 8, 2, 9, 2, 1, 8, 7, 2, 10, 2, 5, 7, 5, 2],
      [1, 3, 5, 3, 7, 5],
      [0, 8, 7, 0, 7, 1, 1, 7, 5],
      [9, 0, 3, 9, 3, 5, 5, 3, 7],
      [9, 8, 7, 5, 9, 7],
      [5, 8, 4, 5, 10, 8, 10, 11, 8],
      [5, 0, 4, 5, 11, 0, 5, 10, 11, 11, 3, 0],
      [0, 1, 9, 8, 4, 10, 8, 10, 11, 10, 4, 5],
      [10, 11, 4, 10, 4, 5, 11, 3, 4, 9, 4, 1, 3, 1, 4],
      [2, 5, 1, 2, 8, 5, 2, 11, 8, 4, 5, 8],
      [0, 4, 11, 0, 11, 3, 4, 5, 11, 2, 11, 1, 5, 1, 11],
      [0, 2, 5, 0, 5, 9, 2, 11, 5, 4, 5, 8, 11, 8, 5],
      [9, 4, 5, 2, 11, 3],
      [2, 5, 10, 3, 5, 2, 3, 4, 5, 3, 8, 4],
      [5, 10, 2, 5, 2, 4, 4, 2, 0],
      [3, 10, 2, 3, 5, 10, 3, 8, 5, 4, 5, 8, 0, 1, 9],
      [5, 10, 2, 5, 2, 4, 1, 9, 2, 9, 4, 2],
      [8, 4, 5, 8, 5, 3, 3, 5, 1],
      [0, 4, 5, 1, 0, 5],
      [8, 4, 5, 8, 5, 3, 9, 0, 5, 0, 3, 5],
      [9, 4, 5],
      [4, 11, 7, 4, 9, 11, 9, 10, 11],
      [0, 8, 3, 4, 9, 7, 9, 11, 7, 9, 10, 11],
      [1, 10, 11, 1, 11, 4, 1, 4, 0, 7, 4, 11],
      [3, 1, 4, 3, 4, 8, 1, 10, 4, 7, 4, 11, 10, 11, 4],
      [4, 11, 7, 9, 11, 4, 9, 2, 11, 9, 1, 2],
      [9, 7, 4, 9, 11, 7, 9, 1, 11, 2, 11, 1, 0, 8, 3],
      [11, 7, 4, 11, 4, 2, 2, 4, 0],
      [11, 7, 4, 11, 4, 2, 8, 3, 4, 3, 2, 4],
      [2, 9, 10, 2, 7, 9, 2, 3, 7, 7, 4, 9],
      [9, 10, 7, 9, 7, 4, 10, 2, 7, 8, 7, 0, 2, 0, 7],
      [3, 7, 10, 3, 10, 2, 7, 4, 10, 1, 10, 0, 4, 0, 10],
      [1, 10, 2, 8, 7, 4],
      [4, 9, 1, 4, 1, 7, 7, 1, 3],
      [4, 9, 1, 4, 1, 7, 0, 8, 1, 8, 7, 1],
      [4, 0, 3, 7, 4, 3],
      [4, 8, 7],
      [9, 10, 8, 10, 11, 8],
      [3, 0, 9, 3, 9, 11, 11, 9, 10],
      [0, 1, 10, 0, 10, 8, 8, 10, 11],
      [3, 1, 10, 11, 3, 10],
      [1, 2, 11, 1, 11, 9, 9, 11, 8],
      [3, 0, 9, 3, 9, 11, 1, 2, 9, 2, 11, 9],
      [0, 2, 11, 8, 0, 11],
      [3, 2, 11],
      [2, 3, 8, 2, 8, 10, 10, 8, 9],
      [9, 10, 2, 0, 9, 2],
      [2, 3, 8, 2, 8, 10, 0, 1, 8, 1, 10, 8],
      [1, 10, 2],
      [1, 3, 8, 9, 1, 8],
      [0, 9, 1],
      [0, 3, 8],
      []
     ]"

definition edgeConnections :: "(nat \<times> nat) list" where
  "edgeConnections =
     [(0, 1), (1, 2), (2, 3), (3, 0),
      (4, 5), (5, 6), (6, 7), (7, 4),
      (0, 4), (1, 5), (2, 6), (3, 7)]"

definition cornerOffsets :: "(real \<times> real \<times> real) list" where
  \<comment> \<open>the constant array of \<open>marchingCubes\<close> that is passed to \<open>_marchCube\<close>\<close>
  "cornerOffsets =
     [(0, 0, 0), (1, 0, 0), (1, 0, 1), (0, 0, 1),
      (0, 1, 0), (1, 1, 0), (1, 1, 1), (0, 1, 1)]"

subsection \<open>\<open>Mesher._marchCube\<close>\<close>

text \<open>
  The three output arrays that \<open>_marchCube\<close> appends to are the record \<open>mesh_arrays\<close>;
  the function returns the arrays as it leaves them. A corner value \<open>values[i]\<close> past the
  end of the array is \<open>undefined\<close>, for which the test \<open>values[i] <= 0\<close> is false.
\<close>

record mesh_arrays =
  vertices :: "jsnum list"
  normals :: "jsnum list"
  indices :: "nat list"

definition cube_index :: "real list \<Rightarrow> nat" where
  "cube_index values =
     fold (\<lambda>i cubeIndex.
             if i < length values \<and> values ! i \<le> 0 then cubeIndex OR push_bit i 1
             else cubeIndex)
          [0..<8] 0"

definition edge_point ::
  "real list \<Rightarrow> vec3 \<Rightarrow> vec3 \<Rightarrow> (real \<times> real \<times> real) list \<Rightarrow> nat \<Rightarrow> jsvec3" where
  "edge_point values pos step offsets i =
     (let (v1, v2) = edgeConnections ! i;
          val1 = values ! v1;
          val2 = values ! v2;
          t = js_div (Num \<bar>val1\<bar>) (Num (\<bar>val1\<bar> + \<bar>val2\<bar>));
          (p1x, p1y, p1z) = offsets ! v1;
          (p2x, p2y, p2z) = offsets ! v2
      in \<lparr>jx = js_add (Num (vx pos))
                  (js_mul (js_add (Num p1x) (js_mul t (Num (p2x - p1x)))) (Num (vx step))),
          jy = js_add (Num (vy pos))
                  (js_mul (js_add (Num p1y) (js_mul t (Num (p2y - p1y)))) (Num (vy step))),
          jz = js_add (Num (vz pos))
                  (js_mul (js_add (Num p1z) (js_mul t (Num (p2z - p1z)))) (Num (vz step)))\<rparr>)"

definition edge_points ::
  "real list \<Rightarrow> vec3 \<Rightarrow> vec3 \<Rightarrow> (real \<times> real \<times> real) list \<Rightarrow> nat \<Rightarrow> jsvec3 option list" where
  \<comment> \<open>the array \<open>edgePoints\<close>; \<open>None\<close> is an entry left \<open>undefined\<close>\<close>
  "edge_points values pos step offsets edgeFlags =
     map (\<lambda>i. if edgeFlags AND push_bit i 1 = 0 then None
               else Some (edge_point values pos step offsets i))
         [0..<12]"

definition edge_point_at :: "jsvec3 option list \<Rightarrow> nat \<Rightarrow> jsvec3 option" where
  "edge_point_at edgePoints e = (if e < length edgePoints then edgePoints ! e else None)"

definition vertex_normal :: "field \<Rightarrow> jsvec3 \<Rightarrow> vec3" where
  \<comment> \<open>\<open>field._gradient(p)\<close> with the default step; at a point with a \<open>NaN\<close> coordinate the
      differences are not positive numbers and \<open>Vec3.normalize\<close> gives the zero vector\<close>
  "vertex_normal f p =
     (case to_vec3 p of
        Some v \<Rightarrow> field_gradient f v 0.001
      | None \<Rightarrow> \<lparr>vx = 0, vy = 0, vz = 0\<rparr>)"

definition push_triangle ::
  "field \<Rightarrow> jsvec3 \<Rightarrow> jsvec3 \<Rightarrow> jsvec3 \<Rightarrow> 'a mesh_arrays_scheme \<Rightarrow> 'a mesh_arrays_scheme" where
  "push_triangle f p0 p1 p2 acc =
     (let baseIndex = length (vertices acc) div 3;
          n0 = vertex_normal f p0;
          n1 = vertex_normal f p1;
          n2 = vertex_normal f p2
      in acc\<lparr>vertices := vertices acc @
                [jx p0, jy p0, jz p0, jx p1, jy p1, jz p1, jx p2, jy p2, jz p2],
              normals := normals acc @
                map Num [vx n0, vy n0, vz n0, vx n1, vy n1, vz n1, vx n2, vy n2, vz n2],
              indices := indices acc @ [baseIndex, baseIndex + 1, baseIndex + 2]\<rparr>)"

definition triangle_step ::
  "jsvec3 option list \<Rightarrow> field \<Rightarrow> nat \<Rightarrow> nat \<Rightarrow> nat \<Rightarrow> 'a mesh_arrays_scheme \<Rightarrow>
   'a mesh_arrays_scheme" where
  \<comment> \<open>the body of the loop over the triangle list: a triple with an \<open>undefined\<close> edge
      point is passed over\<close>
  "triangle_step edgePoints f e0 e1 e2 acc =
     (case (edge_point_at edgePoints e0, edge_point_at edgePoints e1,
            edge_point_at edgePoints e2) of
        (Some p0, Some p1, Some p2) \<Rightarrow> push_triangle f p0 p1 p2 acc
      | _ \<Rightarrow> acc)"

fun emit_triangles ::
  "nat list \<Rightarrow> jsvec3 option list \<Rightarrow> field \<Rightarrow> 'a mesh_arrays_scheme \<Rightarrow> 'a mesh_arrays_scheme" where
  "emit_triangles (e0 # e1 # e2 # rest) edgePoints f acc =
     emit_triangles rest edgePoints f (triangle_step edgePoints f e0 e1 e2 acc)"
| "emit_triangles _ edgePoints f acc = acc"

definition marchCube ::
  "real list \<Rightarrow> vec3 \<Rightarrow> vec3 \<Rightarrow> (real \<times> real \<times> real) list \<Rightarrow> 'a mesh_arrays_scheme \<Rightarrow> field \<Rightarrow>
   'a mesh_arrays_scheme" where
  "marchCube values pos step offsets acc f =
     (let cubeIndex = cube_index values
      in if cubeIndex = 0 \<or> cubeIndex = 255 then acc
         else (let edgeFlags = edgeTable ! cubeIndex
               in if edgeFlags = 0 then acc
                  else emit_triangles (triTable ! cubeIndex)
                         (edge_points values pos step offsets edgeFlags) f acc))"

subsection \<open>\<open>Mesher.marchingCubes\<close>\<close>

text \<open>
  The options object carries \<open>resolution\<close> and \<open>maxMemoryMB\<close>, each possibly absent;
  a resolution is a natural number. What the call prints and reports (\<open>console.warn\<close>,
  \<open>console.log\<close>, the \<open>onProgress\<close> callback) and the allocation of the sample grid are
  recorded, in order, in a trace of events, so that the result of a call is its trace
  together with the mesh or the error thrown (the timer \<open>console.time\<close> is left
  out). The texts of the messages are replaced by
  constructors that keep their interpolated numbers. Values stored in the
  \<open>Float32Array\<close> grid are not rounded.
\<close>

record options =
  resolution :: "nat option"
  maxMemoryMB :: "real option"

datatype message =
    Starting | SamplingField | Sampling nat nat | GeneratingTriangles
  | CubesProcessed nat nat | Finalizing | Complete

datatype event =
    WarnBoundsNotComputed
  | WarnMemoryLimit
  | LogGenerating
  | LogGenerated nat nat
  | Progress real message
  | GridAllocated nat

record mesh = mesh_arrays +
  vertexCount :: nat
  triangleCount :: nat
  mbounds :: bounds3d

record run_state = mesh_arrays +
  grid :: "real list"
  sampleCount :: nat
  cubeCount :: nat
  trace :: "event list"

definition effective_resolution :: "options \<Rightarrow> nat" where
  \<comment> \<open>\<open>options.resolution || 32\<close>\<close>
  "effective_resolution opts =
     (case resolution opts of None \<Rightarrow> 32 | Some r \<Rightarrow> if r = 0 then 32 else r)"

definition effective_maxMemoryMB :: "options \<Rightarrow> real" where
  \<comment> \<open>\<open>options.maxMemoryMB || 512\<close>\<close>
  "effective_maxMemoryMB opts =
     (case maxMemoryMB opts of None \<Rightarrow> 512 | Some m \<Rightarrow> if m = 0 then 512 else m)"

definition estimatedMemory :: "nat \<Rightarrow> real" where
  "estimatedMemory res = real ((res + 1) ^ 3) * 4 / (1024 * 1024)"

definition maxResolution :: "real \<Rightarrow> int option" where
  \<comment> \<open>\<open>Math.floor(Math.pow(maxMemoryMB * 1024 * 1024 / 4, 1/3)) - 1\<close>; the power of a
      negative base is \<open>NaN\<close>, the value \<open>None\<close>\<close>
  "maxResolution maxMem =
     (if maxMem < 0 then None else Some (\<lfloor>root 3 (maxMem * 1024 * 1024 / 4)\<rfloor> - 1))"

definition getIndex :: "nat \<Rightarrow> nat \<Rightarrow> nat \<Rightarrow> nat \<Rightarrow> nat" where
  "getIndex res i j k = i + (res + 1) * (j + (res + 1) * k)"

definition grid_point :: "vec3 \<Rightarrow> vec3 \<Rightarrow> nat \<Rightarrow> nat \<Rightarrow> nat \<Rightarrow> vec3" where
  "grid_point mn step i j k =
     \<lparr>vx = vx mn + real i * vx step, vy = vy mn + real j * vy step,
      vz = vz mn + real k * vz step\<rparr>"

definition sample_cell ::
  "field \<Rightarrow> nat \<Rightarrow> vec3 \<Rightarrow> vec3 \<Rightarrow> nat \<Rightarrow> nat \<Rightarrow> nat \<Rightarrow> run_state \<Rightarrow> run_state" where
  "sample_cell f res mn step k j i st =
     (let p = grid_point mn step i j k;
          totalSamples = (res + 1) ^ 3;
          st1 = st\<lparr>grid := (grid st)[getIndex res i j k := evaluate f p],
                   sampleCount := sampleCount st + 1\<rparr>
      in if sampleCount st1 mod 10000 = 0
         then st1\<lparr>trace := trace st1 @
                [Progress (10 + (real (sampleCount st1) / real totalSamples) * 30)
                   (Sampling (sampleCount st1) totalSamples)]\<rparr>
         else st1)"

definition sample_grid :: "field \<Rightarrow> nat \<Rightarrow> vec3 \<Rightarrow> vec3 \<Rightarrow> run_state \<Rightarrow> run_state" where
  "sample_grid f res mn step =
     fold (\<lambda>k. fold (\<lambda>j. fold (\<lambda>i. sample_cell f res mn step k j i)
                          [0..<res + 1])
                [0..<res + 1])
          [0..<res + 1]"

definition process_cube ::
  "field \<Rightarrow> nat \<Rightarrow> vec3 \<Rightarrow> vec3 \<Rightarrow> nat \<Rightarrow> nat \<Rightarrow> nat \<Rightarrow> run_state \<Rightarrow> run_state" where
  "process_cube f res mn step k j i st =
     (let g = grid st;
          cube = [g ! getIndex res i j k,
                  g ! getIndex res (i + 1) j k,
                  g ! getIndex res (i + 1) j (k + 1),
                  g ! getIndex res i j (k + 1),
                  g ! getIndex res i (j + 1) k,
                  g ! getIndex res (i + 1) (j + 1) k,
                  g ! getIndex res (i + 1) (j + 1) (k + 1),
                  g ! getIndex res i (j + 1) (k + 1)];
          basePos = grid_point mn step i j k;
          totalCubes = res ^ 3;
          st1 = marchCube cube basePos step cornerOffsets st f;
          st2 = st1\<lparr>cubeCount := cubeCount st1 + 1\<rparr>
      in if cubeCount st2 mod 1000 = 0
         then st2\<lparr>trace := trace st2 @
                [Progress (40 + (real (cubeCount st2) / real totalCubes) * 50)
                   (CubesProcessed (cubeCount st2) totalCubes)]\<rparr>
         else st2)"

definition process_cubes :: "field \<Rightarrow> nat \<Rightarrow> vec3 \<Rightarrow> vec3 \<Rightarrow> run_state \<Rightarrow> run_state" where
  "process_cubes f res mn step =
     fold (\<lambda>k. fold (\<lambda>j. fold (\<lambda>i. process_cube f res mn step k j i)
                          [0..<res])
                [0..<res])
          [0..<res]"

definition marchingCubes :: "field \<Rightarrow> options \<Rightarrow> event list \<times> (error + mesh)" where
  "marchingCubes f opts =
     (let res = effective_resolution opts;
          boundsWarning = (if fbounds f = None then [WarnBoundsNotComputed] else []);
          bounds = field_bounds f;
          maxMem = effective_maxMemoryMB opts
      in if estimatedMemory res > maxMem
         then (boundsWarning @ [WarnMemoryLimit],
               Inl (MemoryLimitError res (maxResolution maxMem)))
         else
           (let mn = bmin bounds;
                mx = bmax bounds;
                step = \<lparr>vx = (vx mx - vx mn) / real res,
                        vy = (vy mx - vy mn) / real res,
                        vz = (vz mx - vz mn) / real res\<rparr>;
                st0 = \<lparr>vertices = [], normals = [], indices = [],
                       grid = replicate ((res + 1) ^ 3) 0,
                       sampleCount = 0, cubeCount = 0,
                       trace = boundsWarning @
                         [LogGenerating, Progress 0 Starting, Progress 10 SamplingField,
                          GridAllocated ((res + 1) ^ 3)]\<rparr>;
                st1 = sample_grid f res mn step st0;
                st2 = st1\<lparr>trace := trace st1 @ [Progress 40 GeneratingTriangles]\<rparr>;
                st3 = process_cubes f res mn step st2
            in (trace st3 @
                  [Progress 90 Finalizing,
                   LogGenerated (length (vertices st3) div 3) (length (indices st3) div 3),
                   Progress 100 Complete],
                Inr \<lparr>vertices = vertices st3, normals = normals st3, indices = indices st3,
                     vertexCount = length (vertices st3) div 3,
                     triangleCount = length (indices st3) div 3,
                     mbounds = bounds\<rparr>)))"

section \<open>STL export\<close>

text \<open>
  \<open>Mesher.toSTL(mesh, name)\<close> allocates an \<open>ArrayBuffer\<close> and writes it through a
  \<open>DataView\<close>. The buffer is a list of bytes; a \<open>DataView\<close> setter writes its bytes at an
  offset and throws a \<open>RangeError\<close> when they do not fit. All multi-byte writes of the
  source are little-endian. The conversion of a number to its IEEE-754 single-precision
  bit pattern belongs to the platform, not to the repository: it is the parameter \<open>f32\<close>.
  Reading an index or a vertex coordinate past the end of its array gives \<open>undefined\<close>,
  which every later use turns into \<open>NaN\<close>. The \<open>name\<close> argument may be omitted.
\<close>

type_synonym byte = "8 word"

definition bind_err :: "error + 'a \<Rightarrow> ('a \<Rightarrow> error + 'b) \<Rightarrow> error + 'b" where
  "bind_err r k = (case r of Inl e \<Rightarrow> Inl e | Inr v \<Rightarrow> k v)"

definition le_bytes16 :: "16 word \<Rightarrow> byte list" where
  "le_bytes16 w = [ucast w, ucast (drop_bit 8 w)]"

definition le_bytes32 :: "32 word \<Rightarrow> byte list" where
  "le_bytes32 w = [ucast w, ucast (drop_bit 8 w), ucast (drop_bit 16 w), ucast (drop_bit 24 w)]"

definition write_bytes :: "nat \<Rightarrow> byte list \<Rightarrow> byte list \<Rightarrow> error + byte list" where
  "write_bytes byteOffset bs buffer =
     (if byteOffset + length bs \<le> length buffer
      then Inr (take byteOffset buffer @ bs @ drop (byteOffset + length bs) buffer)
      else Inl RangeError)"

definition setUint8 :: "nat \<Rightarrow> nat \<Rightarrow> byte list \<Rightarrow> error + byte list" where
  "setUint8 byteOffset v buffer = write_bytes byteOffset [of_nat v] buffer"

definition setUint16 :: "nat \<Rightarrow> nat \<Rightarrow> byte list \<Rightarrow> error + byte list" where
  "setUint16 byteOffset v buffer = write_bytes byteOffset (le_bytes16 (of_nat v)) buffer"

definition setUint32 :: "nat \<Rightarrow> nat \<Rightarrow> byte list \<Rightarrow> error + byte list" where
  "setUint32 byteOffset v buffer = write_bytes byteOffset (le_bytes32 (of_nat v)) buffer"

definition setFloat32 ::
  "(jsnum \<Rightarrow> 32 word) \<Rightarrow> nat \<Rightarrow> jsnum \<Rightarrow> byte list \<Rightarrow> error + byte list" where
  "setFloat32 f32 byteOffset v buffer = write_bytes byteOffset (le_bytes32 (f32 v)) buffer"

definition write_header :: "string \<Rightarrow> byte list \<Rightarrow> error + byte list" where
  "write_header header buffer =
     fold (\<lambda>i r. bind_err r (setUint8 i (of_char (header ! i))))
          [0..<min (length header) 80] (Inr buffer)"

definition index_at :: "nat list \<Rightarrow> nat \<Rightarrow> nat option" where
  "index_at xs i = (if i < length xs then Some (xs ! i) else None)"

definition vertex_coord :: "jsnum list \<Rightarrow> nat option \<Rightarrow> nat \<Rightarrow> jsnum" where
  "vertex_coord vs base j =
     (case base of
        None \<Rightarrow> NaN
      | Some b \<Rightarrow> if b + j < length vs then vs ! (b + j) else NaN)"

definition vertex_at :: "'a mesh_scheme \<Rightarrow> nat \<Rightarrow> jsvec3" where
  "vertex_at mesh i =
     (let i0 = map_option (\<lambda>k. k * 3) (index_at (indices mesh) i)
      in \<lparr>jx = vertex_coord (vertices mesh) i0 0,
          jy = vertex_coord (vertices mesh) i0 1,
          jz = vertex_coord (vertices mesh) i0 2\<rparr>)"

definition face_normal :: "jsvec3 \<Rightarrow> jsvec3 \<Rightarrow> jsvec3 \<Rightarrow> jsvec3" where
  "face_normal v0 v1 v2 =
     (let edge1 = \<lparr>jx = js_sub (jx v1) (jx v0), jy = js_sub (jy v1) (jy v0),
                   jz = js_sub (jz v1) (jz v0)\<rparr>;
          edge2 = \<lparr>jx = js_sub (jx v2) (jx v0), jy = js_sub (jy v2) (jy v0),
                   jz = js_sub (jz v2) (jz v0)\<rparr>;
          normal = \<lparr>jx = js_sub (js_mul (jy edge1) (jz edge2)) (js_mul (jz edge1) (jy edge2)),
                    jy = js_sub (js_mul (jz edge1) (jx edge2)) (js_mul (jx edge1) (jz edge2)),
                    jz = js_sub (js_mul (jx edge1) (jy edge2)) (js_mul (jy edge1) (jx edge2))\<rparr>;
          len = js_sqrt (js_add (js_add (js_mul (jx normal) (jx normal))
                                        (js_mul (jy normal) (jy normal)))
                                (js_mul (jz normal) (jz normal)))
      in if js_positive len
         then \<lparr>jx = js_div (jx normal) len, jy = js_div (jy normal) len,
               jz = js_div (jz normal) len\<rparr>
         else normal)"

definition triangle_floats :: "'a mesh_scheme \<Rightarrow> nat \<Rightarrow> jsnum list" where
  "triangle_floats mesh i =
     (let v0 = vertex_at mesh i;
          v1 = vertex_at mesh (i + 1);
          v2 = vertex_at mesh (i + 2);
          normal = face_normal v0 v1 v2
      in [jx normal, jy normal, jz normal,
          jx v0, jy v0, jz v0, jx v1, jy v1, jz v1, jx v2, jy v2, jz v2])"

fun write_floats ::
  "(jsnum \<Rightarrow> 32 word) \<Rightarrow> nat \<Rightarrow> jsnum list \<Rightarrow> byte list \<Rightarrow> error + (nat \<times> byte list)" where
  "write_floats f32 byteOffset [] buffer = Inr (byteOffset, buffer)"
| "write_floats f32 byteOffset (v # vs) buffer =
     bind_err (setFloat32 f32 byteOffset v buffer) (write_floats f32 (byteOffset + 4) vs)"

function write_triangles ::
  "(jsnum \<Rightarrow> 32 word) \<Rightarrow> 'a mesh_scheme \<Rightarrow> nat \<Rightarrow> nat \<Rightarrow> byte list \<Rightarrow> error + byte list" where
  "write_triangles f32 mesh i byteOffset buffer =
     (if i < length (indices mesh)
      then bind_err (write_floats f32 byteOffset (triangle_floats mesh i) buffer)
             (\<lambda>(offset1, buffer1).
                bind_err (setUint16 offset1 0 buffer1)
                  (write_triangles f32 mesh (i + 3) (offset1 + 2)))
      else Inr buffer)"
  by pat_completeness auto
termination
  by (relation "measure (\<lambda>(f32, mesh, i, byteOffset, buffer). length (indices mesh) - i)") auto

declare write_triangles.simps [simp del]

definition toSTL ::
  "(jsnum \<Rightarrow> 32 word) \<Rightarrow> 'a mesh_scheme \<Rightarrow> string option \<Rightarrow> error + byte list" where
  "toSTL f32 mesh name =
     (let buffer = replicate (84 + triangleCount mesh * 50) 0;
          header = ''FIXED Marching Cubes - '' @ (case name of None \<Rightarrow> ''model'' | Some n \<Rightarrow> n)
      in bind_err (write_header header buffer)
           (\<lambda>buffer1. bind_err (setUint32 80 (triangleCount mesh) buffer1)
              (write_triangles f32 mesh 0 84)))"

section \<open>Predicates and inputs used in the proofs\<close>




text \<open>
  The output arrays form a triangle soup when they hold three coordinates and three
  normal components for every index, and the indices come in threes.
\<close>

definition triangle_soup :: "'a mesh_arrays_scheme \<Rightarrow> bool" where
  "triangle_soup m \<longleftrightarrow>
     length (vertices m) = 3 * length (indices m) \<and>
     length (normals m) = 3 * length (indices m) \<and>
     3 dvd length (indices m)"

text \<open>
  The example field is the half space \<open>x \<le> 1/2\<close>, given as an implicit function with the
  unit cube as its bounds.
\<close>

definition origin :: vec3 where
  "origin = \<lparr>vx = 0, vy = 0, vz = 0\<rparr>"

definition unit_step :: vec3 where
  "unit_step = \<lparr>vx = 1, vy = 1, vz = 1\<rparr>"

definition half_space :: field where
  "half_space = implicit (\<lambda>x y z. x - 1 / 2) (Some \<lparr>bmin = origin, bmax = unit_step\<rparr>)"


text \<open>
  The layout of a binary STL file in the words of the specification: an 80-byte header,
  the triangle count as four little-endian bytes, and 50 bytes per triangle: the face
  normal, the three vertices (three single-precision numbers each) and two zero bytes.
  The geometric normal of a triangle is the normalised cross product of its edge
  vectors.
\<close>

definition stl_header :: "string option \<Rightarrow> byte list" where
  "stl_header name =
     (let shown = take 80 (''FIXED Marching Cubes - '' @
                            (case name of None \<Rightarrow> ''model'' | Some n \<Rightarrow> n))
      in map (\<lambda>c. of_nat (of_char c)) shown @ replicate (80 - length shown) 0)"

definition stl_vector :: "(jsnum \<Rightarrow> 32 word) \<Rightarrow> jsvec3 \<Rightarrow> byte list" where
  "stl_vector f32 v = le_bytes32 (f32 (jx v)) @ le_bytes32 (f32 (jy v)) @ le_bytes32 (f32 (jz v))"

definition stl_triangle :: "(jsnum \<Rightarrow> 32 word) \<Rightarrow> 'a mesh_scheme \<Rightarrow> nat \<Rightarrow> byte list" where
  "stl_triangle f32 mesh t =
     (let v0 = vertex_at mesh (3 * t);
          v1 = vertex_at mesh (3 * t + 1);
          v2 = vertex_at mesh (3 * t + 2)
      in stl_vector f32 (face_normal v0 v1 v2) @
         stl_vector f32 v0 @ stl_vector f32 v1 @ stl_vector f32 v2 @ [0, 0])"

definition stl_file :: "(jsnum \<Rightarrow> 32 word) \<Rightarrow> 'a mesh_scheme \<Rightarrow> string option \<Rightarrow> byte list" where
  "stl_file f32 mesh name =
     stl_header name @ le_bytes32 (of_nat (triangleCount mesh)) @
     concat (map (stl_triangle f32 mesh) [0..<triangleCount mesh])"




section \<open>Properties of the combinators\<close>

lemma smoothMin_pair:
  assumes "0 < k" and "k \<le> \<bar>a - b\<bar>"
  shows "smoothMin [a, b] k = Some (min a b)"
proof -
  have "max (k - \<bar>a - b\<bar>) 0 = 0"
    using assms by simp
  then show ?thesis
    by (simp add: smoothMin_def)
qed

lemma smoothMax_pair:
  assumes "0 < k" and "k \<le> \<bar>a - b\<bar>"
  shows "smoothMax [a, b] k = Some (max a b)"
proof -
  have "max (k - \<bar>a - b\<bar>) 0 = 0"
    using assms by simp
  then show ?thesis
    by (simp add: smoothMax_def)
qed

text \<open>
  C9. The polynomial smooth minimum of two values reduces to the plain minimum as the
  blend radius goes to zero: for \<open>a \<noteq> b\<close> there is a radius \<open>k0 > 0\<close> below which
  \<open>_smoothMin([a, b], k)\<close> is \<open>min a b\<close>; likewise \<open>_smoothMax([a, b], k)\<close> is \<open>max a b\<close>.
\<close>

theorem smooth_blend_reduces_to_min_max:
  assumes "a \<noteq> b"
  shows "\<exists>k0 > 0. \<forall>k. 0 < k \<and> k < k0 \<longrightarrow>
           smoothMin [a, b] k = Some (min a b) \<and> smoothMax [a, b] k = Some (max a b)"
proof (intro exI conjI allI impI)
  show "0 < \<bar>a - b\<bar>"
    using assms by simp
next
  fix k assume "0 < k \<and> k < \<bar>a - b\<bar>"
  then show "smoothMin [a, b] k = Some (min a b)"
    by (intro smoothMin_pair) simp_all
next
  fix k assume "0 < k \<and> k < \<bar>a - b\<bar>"
  then show "smoothMax [a, b] k = Some (max a b)"
    by (intro smoothMax_pair) simp_all
qed

theorem smooth_blend_reduces_to_min_max_witness:
  "(1::real) \<noteq> 3 \<and>
   (\<exists>k0 > 0. \<forall>k. 0 < k \<and> k < k0 \<longrightarrow>
      smoothMin [1, 3] k = Some 1 \<and> smoothMax [1, 3] k = Some 3)"
  using smooth_blend_reduces_to_min_max [of 1 3] by simp

text \<open>
  C7. The field built by \<open>Boolean.difference(a, b)\<close> evaluates at every point \<open>p\<close> to
  exactly \<open>max(a(p), -b(p))\<close>.
\<close>

theorem difference_evaluate:
  "evaluate (difference a b) p = max (evaluate a p) (- evaluate b p)"
  by (simp add: difference_def)

section \<open>Properties of the primitives\<close>

lemma sqrt_25: "sqrt 25 = 5"
  using real_sqrt_abs [of 5] by simp

text \<open>
  C6 (as stated). For \<open>box(center = (0,0,0), size = (10,10,10))\<close> the claim expects a
  distance of about 0 at \<open>(10,0,0)\<close>. The \<open>size\<close> argument holds the full edge lengths, so
  the faces lie at distance 5 from the centre and the point \<open>(10,0,0)\<close> is 5 outside.
\<close>

theorem box_at_10_0_0_counterexample:
  "box_evaluate \<lparr>vx = 0, vy = 0, vz = 0\<rparr> \<lparr>vx = 10, vy = 10, vz = 10\<rparr>
     \<lparr>vx = 10, vy = 0, vz = 0\<rparr> = 5 \<and>
   1 < \<bar>box_evaluate \<lparr>vx = 0, vy = 0, vz = 0\<rparr> \<lparr>vx = 10, vy = 10, vz = 10\<rparr>
         \<lparr>vx = 10, vy = 0, vz = 0\<rparr> - 0\<bar>"
  by (simp add: box_evaluate_def Vec3_mul_def Vec3_length_def Let_def sqrt_25)

text \<open>
  C6 (amended). \<open>box(center = (0,0,0), size = (10,10,10))\<close> is constructed without error;
  its field evaluates to 0 at \<open>(5,0,0)\<close>, a point on a face, to 5 at \<open>(10,0,0)\<close> and to
  \<open>-5\<close> at the centre \<open>(0,0,0)\<close>.
\<close>

theorem box_scenario_distances:
  "(case box \<lparr>vx = 0, vy = 0, vz = 0\<rparr> \<lparr>vx = 10, vy = 10, vz = 10\<rparr> of
      Inl e \<Rightarrow> False
    | Inr f \<Rightarrow> evaluate f \<lparr>vx = 5, vy = 0, vz = 0\<rparr> = 0 \<and>
              evaluate f \<lparr>vx = 10, vy = 0, vz = 0\<rparr> = 5 \<and>
              evaluate f \<lparr>vx = 0, vy = 0, vz = 0\<rparr> = -5)"
  by (simp add: box_def box_evaluate_def Vec3_mul_def Vec3_length_def Let_def sqrt_25)

text \<open>
  The constructors that do reject degenerate parameters: a non-positive radius, a
  non-positive box dimension, a non-positive scale factor, and coincident end points of
  a cylinder or a cone.
\<close>

lemma nonpositive_radius_rejected:
  assumes "radius \<le> 0"
  shows "sphere center radius = Inl (Error ''Sphere radius must be positive'')"
    and "cylinder start endPt radius = Inl (Error ''Cylinder radius must be positive'')"
    and "cone base tip radius = Inl (Error ''Cone radius must be positive'')"
    and "capsule start endPt radius = Inl (Error ''Capsule radius must be positive'')"
  using assms by (simp_all add: sphere_def cylinder_def cone_def capsule_def)

lemma nonpositive_box_dimension_rejected:
  assumes "vx dims \<le> 0 \<or> vy dims \<le> 0 \<or> vz dims \<le> 0"
  shows "box center dims = Inl (Error ''Box dimensions must be positive'')"
  using assms by (simp add: box_def)

lemma nonpositive_scale_rejected:
  assumes "vx (scale_factors sc) \<le> 0 \<or> vy (scale_factors sc) \<le> 0 \<or> vz (scale_factors sc) \<le> 0"
  shows "scale f sc center = Inl (Error ''Scale factors must be positive'')"
  using assms by (simp add: scale_def Let_def)

lemma Vec3_distance_self: "Vec3_distance a a = 0"
  by (simp add: Vec3_distance_def Vec3_sub_def Vec3_length_def)

lemma coincident_points_rejected:
  assumes "0 < radius"
  shows "cylinder a a radius = Inl (Error ''Cylinder start and end must be different'')"
    and "cone a a radius = Inl (Error ''Cone base and tip must be different'')"
  using assms by (simp_all add: cylinder_def cone_def Vec3_distance_self)

lemma capsule_coincident_is_sphere:
  "capsule_evaluate c c r p = sphere_evaluate c r p"
  by (simp add: capsule_evaluate_def sphere_evaluate_def Vec3_sub_def Vec3_length_def
      Vec3_normalize_def Vec3_mul_def Vec3_add_def Vec3_dot_def Vec3_distance_def Let_def)

text \<open>
  C5. Every constructor is expected to throw on degenerate parameters, a capsule with
  coincident start and end points included. \<open>Primitives.capsule\<close> checks the radius
  only: with both end points at the origin and radius 1 it returns a field, where the
  cylinder and the cone throw.
\<close>

theorem capsule_coincident_points_accepted:
  "capsule \<lparr>vx = 0, vy = 0, vz = 0\<rparr> \<lparr>vx = 0, vy = 0, vz = 0\<rparr> 1 =
     Inr \<lparr>evaluate = capsule_evaluate \<lparr>vx = 0, vy = 0, vz = 0\<rparr> \<lparr>vx = 0, vy = 0, vz = 0\<rparr> 1,
          fbounds = Some \<lparr>bmin = \<lparr>vx = -1, vy = -1, vz = -1\<rparr>,
                          bmax = \<lparr>vx = 1, vy = 1, vz = 1\<rparr>\<rparr>,
          ftype = ''capsule'', complexity = 1\<rparr> \<and>
   cylinder \<lparr>vx = 0, vy = 0, vz = 0\<rparr> \<lparr>vx = 0, vy = 0, vz = 0\<rparr> 1 =
     Inl (Error ''Cylinder start and end must be different'') \<and>
   cone \<lparr>vx = 0, vy = 0, vz = 0\<rparr> \<lparr>vx = 0, vy = 0, vz = 0\<rparr> 1 =
     Inl (Error ''Cone base and tip must be different'')"
  by (simp add: capsule_def cylinder_def cone_def Vec3_distance_self)

section \<open>Properties of the lattices\<close>

lemma coordinate_distance:
  fixes lo hi c :: real
  assumes "lo \<le> hi"
  defines "d \<equiv> max (lo - c) (max (c - hi) 0)"
  shows "(c - max lo (min hi c)) * (c - max lo (min hi c)) = d * d"
    and "\<And>q. lo \<le> q \<Longrightarrow> q \<le> hi \<Longrightarrow> d * d \<le> (c - q) * (c - q)"
proof -
  have "\<bar>c - max lo (min hi c)\<bar> = d"
    using assms by (auto simp: d_def max_def min_def)
  then show "(c - max lo (min hi c)) * (c - max lo (min hi c)) = d * d"
    by (metis abs_mult_self_eq)
next
  fix q assume "lo \<le> q" "q \<le> hi"
  then have "0 \<le> d" "d \<le> \<bar>c - q\<bar>"
    by (auto simp: d_def)
  then have "d * d \<le> \<bar>c - q\<bar> * \<bar>c - q\<bar>"
    by (intro mult_mono) simp_all
  then show "d * d \<le> (c - q) * (c - q)"
    by simp
qed

lemma box_distance_attained:
  assumes "Bounds_isValid b"
  shows "Bounds_contains b (Vec3_clamp p (bmin b) (bmax b))"
    and "Vec3_distance p (Vec3_clamp p (bmin b) (bmax b)) = lattice_box_distance b p"
  using assms
   apply (simp add: Bounds_isValid_def Bounds_contains_def Vec3_clamp_def)
  using assms
  by (simp add: Bounds_isValid_def Vec3_distance_def Vec3_length_def Vec3_sub_def
      Vec3_clamp_def lattice_box_distance_def Let_def coordinate_distance(1))

lemma box_distance_least:
  assumes "Bounds_contains b q"
  shows "lattice_box_distance b p \<le> Vec3_distance p q"
proof -
  have v: "vx (bmin b) \<le> vx (bmax b)" "vy (bmin b) \<le> vy (bmax b)"
    "vz (bmin b) \<le> vz (bmax b)"
    using assms by (auto simp: Bounds_contains_def)
  show ?thesis
    unfolding lattice_box_distance_def Vec3_distance_def Vec3_length_def Vec3_sub_def Let_def
    using assms v
    by (auto simp: Bounds_contains_def intro!: real_sqrt_le_mono add_mono coordinate_distance(2))
qed

lemma box_distance_nonneg: "0 \<le> lattice_box_distance b p"
  by (simp add: lattice_box_distance_def Let_def)

lemma box_distance_far_corner:
  "lattice_box_distance
     \<lparr>bmin = \<lparr>vx = -40, vy = -40, vz = -40\<rparr>, bmax = \<lparr>vx = 40, vy = 40, vz = 40\<rparr>\<rparr>
     \<lparr>vx = 1000, vy = 1000, vz = 1000\<rparr> = 960 * sqrt 3"
proof -
  have "sqrt (960 * 960 * 3) = 960 * sqrt 3"
    by (simp only: real_sqrt_mult real_sqrt_abs2) simp
  then show ?thesis
    by (simp add: lattice_box_distance_def)
qed

text \<open>
  C8. Every lattice field (gyroid, Schwarz P, diamond, Schwarz D, cubic, octet) with
  declared bounds \<open>b\<close>, evaluated at a point \<open>p\<close> outside \<open>b\<close>, returns the Euclidean
  distance from \<open>p\<close> to the box \<open>b\<close>: a value that is not negative, that is the distance
  from \<open>p\<close> to some point of the box, and that no point of the box undercuts.
\<close>

theorem lattice_outside_bounds_is_box_distance:
  assumes "Bounds_isValid b" and "lattice_outside b p"
  shows "evaluate (gyroid b cellSize thickness) p = lattice_box_distance b p \<and>
         evaluate (schwarzP b cellSize thickness) p = lattice_box_distance b p \<and>
         evaluate (diamond b cellSize thickness) p = lattice_box_distance b p \<and>
         evaluate (schwarzD b cellSize thickness) p = lattice_box_distance b p \<and>
         evaluate (cubic b cellSize thickness) p = lattice_box_distance b p \<and>
         evaluate (octet b cellSize thickness) p = lattice_box_distance b p \<and>
         0 \<le> lattice_box_distance b p \<and>
         (\<exists>q. Bounds_contains b q \<and> Vec3_distance p q = lattice_box_distance b p) \<and>
         (\<forall>q. Bounds_contains b q \<longrightarrow> lattice_box_distance b p \<le> Vec3_distance p q)"
proof -
  have "\<exists>q. Bounds_contains b q \<and> Vec3_distance p q = lattice_box_distance b p"
    using box_distance_attained [OF assms(1)] by blast
  moreover have "\<forall>q. Bounds_contains b q \<longrightarrow> lattice_box_distance b p \<le> Vec3_distance p q"
    using box_distance_least by blast
  moreover have "evaluate (gyroid b cellSize thickness) p = lattice_box_distance b p"
    using assms(2) by (simp add: gyroid_def lattice_field_def gyroid_evaluate_def)
  moreover have "evaluate (schwarzP b cellSize thickness) p = lattice_box_distance b p"
    using assms(2) by (simp add: schwarzP_def lattice_field_def schwarzP_evaluate_def)
  moreover have "evaluate (diamond b cellSize thickness) p = lattice_box_distance b p"
    using assms(2) by (simp add: diamond_def lattice_field_def diamond_evaluate_def)
  moreover have "evaluate (schwarzD b cellSize thickness) p = lattice_box_distance b p"
    using assms(2) by (simp add: schwarzD_def lattice_field_def schwarzD_evaluate_def)
  moreover have "evaluate (cubic b cellSize thickness) p = lattice_box_distance b p"
    using assms(2) by (simp add: cubic_def lattice_field_def cubic_evaluate_def)
  moreover have "evaluate (octet b cellSize thickness) p = lattice_box_distance b p"
    using assms(2) by (simp add: octet_def lattice_field_def octet_evaluate_def)
  ultimately show ?thesis
    using box_distance_nonneg by blast
qed

text \<open>
  The scenario of the claim: a gyroid bounded to \<open>[-40, 40]\<^sup>3\<close>, sampled at
  \<open>(1000, 1000, 1000)\<close>, returns \<open>960 * sqrt 3\<close>, the distance to the corner
  \<open>(40, 40, 40)\<close>.
\<close>

theorem lattice_outside_bounds_is_box_distance_witness:
  "Bounds_isValid \<lparr>bmin = \<lparr>vx = -40, vy = -40, vz = -40\<rparr>, bmax = \<lparr>vx = 40, vy = 40, vz = 40\<rparr>\<rparr> \<and>
   lattice_outside \<lparr>bmin = \<lparr>vx = -40, vy = -40, vz = -40\<rparr>, bmax = \<lparr>vx = 40, vy = 40, vz = 40\<rparr>\<rparr>
     \<lparr>vx = 1000, vy = 1000, vz = 1000\<rparr> \<and>
   evaluate (gyroid \<lparr>bmin = \<lparr>vx = -40, vy = -40, vz = -40\<rparr>, bmax = \<lparr>vx = 40, vy = 40, vz = 40\<rparr>\<rparr> 10 1)
     \<lparr>vx = 1000, vy = 1000, vz = 1000\<rparr> = 960 * sqrt 3 \<and>
   0 < 960 * sqrt 3"
proof -
  let ?b = "\<lparr>bmin = \<lparr>vx = -40, vy = -40, vz = -40\<rparr>, bmax = \<lparr>vx = 40, vy = 40, vz = 40\<rparr>\<rparr>"
  let ?p = "\<lparr>vx = 1000, vy = 1000, vz = 1000\<rparr>"
  have v: "Bounds_isValid ?b"
    by (simp add: Bounds_isValid_def)
  have out: "lattice_outside ?b ?p"
    by (simp add: lattice_outside_def)
  from lattice_outside_bounds_is_box_distance [OF v out, of 10 1]
  have "evaluate (gyroid ?b 10 1) ?p = lattice_box_distance ?b ?p"
    by blast
  with v out show ?thesis
    by (simp add: box_distance_far_corner)
qed

section \<open>Properties of the mesher\<close>

subsection \<open>The cube index and the edge table\<close>

lemma cube_index_fold_bit:
  "bit (fold (\<lambda>i c. if i < length vs \<and> vs ! i \<le> (0::real) then c OR push_bit i 1 else c) [0..<n] (0::nat)) j
     \<longleftrightarrow> j < n \<and> j < length vs \<and> vs ! j \<le> 0"
proof (induction n)
  case 0
  then show ?case by simp
next
  case (Suc n)
  then show ?case
    by (auto simp: bit_or_iff bit_exp_iff less_Suc_eq)
qed

lemma bit_cube_index:
  "bit (cube_index vs) j \<longleftrightarrow> j < 8 \<and> j < length vs \<and> vs ! j \<le> 0"
  unfolding cube_index_def by (rule cube_index_fold_bit)

lemma cube_index_less: "cube_index vs < 256"
proof -
  have "cube_index vs = take_bit 8 (cube_index vs)"
    by (rule bit_eqI) (auto simp: bit_take_bit_iff bit_cube_index)
  also have "\<dots> < 2 ^ 8"
    by (rule take_bit_nat_less_exp)
  finally show ?thesis by simp
qed















lemma fold_invariant:
  assumes "\<And>x s. P s \<Longrightarrow> P (g x s)" and "P s"
  shows "P (fold g xs s)"
  using assms(2) by (induction xs arbitrary: s) (simp_all add: assms(1))






subsection \<open>A run on the half space, at resolution 1\<close>

lemma upt_0_8: "[0..<8] = [0, 1, 2, 3, 4, 5, 6, 7]"
  by (simp add: upt_conv_Cons)

lemma cube_index_all_positive: "cube_index [1, 1, 1, 1, 1, 1, 1, 1] = 0"
  by (simp add: cube_index_def upt_0_8)

lemma cube_index_all_negative: "cube_index [-1, -1, -1, -1, -1, -1, -1, -1] = 255"
  by (simp add: cube_index_def upt_0_8)

lemma half_space_gradient: "0 < eps \<Longrightarrow> field_gradient half_space p eps = \<lparr>vx = 1, vy = 0, vz = 0\<rparr>"
  by (simp add: field_gradient_def half_space_def implicit_def Vec3_normalize_def Vec3_length_def Vec3_mul_def Let_def)

lemma upt_0_2: "[0..<2] = [0, 1]"
  by (simp add: upt_conv_Cons)

lemma list_update_numeral: "(x # xs)[numeral k := y] = x # xs[pred_numeral k := y]"
  by (simp add: numeral_eq_Suc)

lemma replicate_8: "replicate 8 (0::real) = [0, 0, 0, 0, 0, 0, 0, 0]"
  by (simp add: eval_nat_numeral)

lemma upt_0_1: "[0..<1] = [0]"
  by simp

lemma half_space_sample_grid:
  "sample_grid half_space (Suc 0) origin unit_step
     \<lparr>vertices = [], normals = [], indices = [], grid = [0, 0, 0, 0, 0, 0, 0, 0], sampleCount = 0,
      cubeCount = 0, trace = tr\<rparr> =
     \<lparr>vertices = [], normals = [], indices = [],
      grid = [- (1 / 2), 1 / 2, - (1 / 2), 1 / 2, - (1 / 2), 1 / 2, - (1 / 2), 1 / 2],
      sampleCount = 8, cubeCount = 0, trace = tr\<rparr>"
  by (simp add: sample_grid_def sample_cell_def getIndex_def grid_point_def upt_0_2
      half_space_def implicit_def origin_def unit_step_def Let_def list_update_numeral)

lemma upt_0_12: "[0..<12] = [0, 1, 2, 3, 4, 5, 6, 7, 8, 9, 10, 11]"
  by (simp add: upt_conv_Cons)

lemma half_space_edge_points:
  "edge_points [- (1 / 2), 1 / 2, 1 / 2, - (1 / 2), - (1 / 2), 1 / 2, 1 / 2, - (1 / 2)]
     origin unit_step cornerOffsets 0x55 =
   [Some \<lparr>jx = Num (1 / 2), jy = Num 0, jz = Num 0\<rparr>, None,
    Some \<lparr>jx = Num (1 / 2), jy = Num 0, jz = Num 1\<rparr>, None,
    Some \<lparr>jx = Num (1 / 2), jy = Num 1, jz = Num 0\<rparr>, None,
    Some \<lparr>jx = Num (1 / 2), jy = Num 1, jz = Num 1\<rparr>, None, None, None, None, None]"
  by (simp add: edge_points_def edge_point_def upt_0_12 edgeConnections_def cornerOffsets_def
      origin_def unit_step_def Let_def)

lemma half_space_marchCube:
  "marchCube [- (1 / 2), 1 / 2, 1 / 2, - (1 / 2), - (1 / 2), 1 / 2, 1 / 2, - (1 / 2)]
     origin unit_step cornerOffsets
     \<lparr>vertices = [], normals = [], indices = [], grid = g, sampleCount = 8,
      cubeCount = 0, trace = tr\<rparr> half_space =
     \<lparr>vertices = map Num [1/2, 0, 0, 1/2, 1, 0, 1/2, 0, 1, 1/2, 1, 0, 1/2, 1, 1, 1/2, 0, 1],
      normals = map Num [1, 0, 0, 1, 0, 0, 1, 0, 0, 1, 0, 0, 1, 0, 0, 1, 0, 0],
      indices = [0, 1, 2, 3, 4, 5], grid = g, sampleCount = 8,
      cubeCount = 0, trace = tr\<rparr>"
proof -
  have ci: "cube_index [- (1 / 2), 1 / 2, 1 / 2, - (1 / 2), - (1 / 2), 1 / 2, 1 / 2, - (1 / 2)] = 153"
    by (simp add: cube_index_def upt_0_8)
  have et: "edgeTable ! 153 = 0x55"
    by (simp add: edgeTable_def)
  have tt: "triTable ! 153 = [0, 4, 2, 4, 6, 2]"
    by (simp add: triTable_def)
  show ?thesis
    by (simp add: marchCube_def ci et tt half_space_edge_points edge_point_at_def triangle_step_def
        push_triangle_def vertex_normal_def to_vec3_def half_space_gradient)
qed

lemma half_space_process_cubes:
  "process_cubes half_space (Suc 0) origin unit_step
     \<lparr>vertices = [], normals = [], indices = [],
      grid = [- (1 / 2), 1 / 2, - (1 / 2), 1 / 2, - (1 / 2), 1 / 2, - (1 / 2), 1 / 2],
      sampleCount = 8, cubeCount = 0, trace = tr\<rparr> =
     \<lparr>vertices = map Num [1/2, 0, 0, 1/2, 1, 0, 1/2, 0, 1, 1/2, 1, 0, 1/2, 1, 1, 1/2, 0, 1],
      normals = map Num [1, 0, 0, 1, 0, 0, 1, 0, 0, 1, 0, 0, 1, 0, 0, 1, 0, 0],
      indices = [0, 1, 2, 3, 4, 5],
      grid = [- (1 / 2), 1 / 2, - (1 / 2), 1 / 2, - (1 / 2), 1 / 2, - (1 / 2), 1 / 2],
      sampleCount = 8, cubeCount = 1, trace = tr\<rparr>"
proof -
  have gp: "grid_point origin unit_step 0 0 0 = origin"
    by (simp add: grid_point_def origin_def)
  show ?thesis
    by (simp add: process_cubes_def process_cube_def upt_0_1 getIndex_def gp half_space_marchCube Let_def)
qed

lemma half_space_run:
  "snd (marchingCubes half_space \<lparr>resolution = Some 1, maxMemoryMB = None\<rparr>) =
     Inr \<lparr>vertices = map Num [1/2, 0, 0, 1/2, 1, 0, 1/2, 0, 1, 1/2, 1, 0, 1/2, 1, 1, 1/2, 0, 1],
          normals = map Num [1, 0, 0, 1, 0, 0, 1, 0, 0, 1, 0, 0, 1, 0, 0, 1, 0, 0],
          indices = [0, 1, 2, 3, 4, 5],
          vertexCount = 6, triangleCount = 2,
          mbounds = \<lparr>bmin = \<lparr>vx = 0, vy = 0, vz = 0\<rparr>, bmax = \<lparr>vx = 1, vy = 1, vz = 1\<rparr>\<rparr>\<rparr>"
proof -
  have fb: "fbounds half_space = Some \<lparr>bmin = origin, bmax = unit_step\<rparr>"
    by (simp add: half_space_def implicit_def origin_def unit_step_def)
  have st: "\<lparr>vx = vx unit_step - vx origin, vy = vy unit_step - vy origin,
             vz = vz unit_step - vz origin\<rparr> = unit_step"
    by (simp add: origin_def unit_step_def)
  have rp: "replicate (Suc (Suc 0) ^ 3) (0::real) = [0, 0, 0, 0, 0, 0, 0, 0]"
    by (simp add: eval_nat_numeral)
  have r: "effective_resolution \<lparr>resolution = Some 1, maxMemoryMB = None\<rparr> = 1"
    by (simp add: effective_resolution_def)
  have m: "\<not> estimatedMemory 1 > effective_maxMemoryMB \<lparr>resolution = Some 1, maxMemoryMB = None\<rparr>"
    by (simp add: estimatedMemory_def effective_maxMemoryMB_def)
  have "snd (marchingCubes half_space \<lparr>resolution = Some 1, maxMemoryMB = None\<rparr>) =
     Inr \<lparr>vertices = map Num [1/2, 0, 0, 1/2, 1, 0, 1/2, 0, 1, 1/2, 1, 0, 1/2, 1, 1, 1/2, 0, 1],
          normals = map Num [1, 0, 0, 1, 0, 0, 1, 0, 0, 1, 0, 0, 1, 0, 0, 1, 0, 0],
          indices = [0, 1, 2, 3, 4, 5],
          vertexCount = 6, triangleCount = 2,
          mbounds = \<lparr>bmin = origin, bmax = unit_step\<rparr>\<rparr>"
    unfolding marchingCubes_def r Let_def field_bounds_def fb
    using m by (simp add: st rp half_space_sample_grid half_space_process_cubes)
  then show ?thesis
    by (simp add: origin_def unit_step_def)
qed

subsection \<open>The memory budget and the defaults\<close>



lemma within_budget_returns_mesh:
  assumes "\<not> estimatedMemory (effective_resolution opts) > effective_maxMemoryMB opts"
  shows "\<exists>m. snd (marchingCubes f opts) = Inr m"
  using assms by (simp add: marchingCubes_def Let_def)



text \<open>
  C10. A call whose \<open>options.resolution\<close> is absent or 0 behaves in every respect as the
  call with resolution 32: no error is raised for the resolution, the only error
  possible is the memory-limit error for resolution 32, and with the default memory
  budget the call returns a mesh.
\<close>

theorem falsy_resolution_defaults_to_32:
  assumes "resolution opts = None \<or> resolution opts = Some 0"
  shows "effective_resolution opts = 32 \<and>
         marchingCubes f opts = marchingCubes f (opts\<lparr>resolution := Some 32\<rparr>) \<and>
         (maxMemoryMB opts = None \<longrightarrow> (\<exists>m. snd (marchingCubes f opts) = Inr m)) \<and>
         (\<forall>e. snd (marchingCubes f opts) = Inl e \<longrightarrow>
              e = MemoryLimitError 32 (maxResolution (effective_maxMemoryMB opts)))"
proof -
  have r: "effective_resolution opts = 32"
    using assms by (auto simp: effective_resolution_def)
  have r': "effective_resolution (opts\<lparr>resolution := Some 32\<rparr>) = 32"
    by (simp add: effective_resolution_def)
  have m: "effective_maxMemoryMB (opts\<lparr>resolution := Some 32\<rparr>) = effective_maxMemoryMB opts"
    by (simp add: effective_maxMemoryMB_def)
  have eq: "marchingCubes f opts = marchingCubes f (opts\<lparr>resolution := Some 32\<rparr>)"
    by (simp add: marchingCubes_def r r' m)
  have ok: "\<exists>m. snd (marchingCubes f opts) = Inr m" if "maxMemoryMB opts = None"
  proof (rule within_budget_returns_mesh)
    show "\<not> estimatedMemory (effective_resolution opts) > effective_maxMemoryMB opts"
      using that by (simp add: r estimatedMemory_def effective_maxMemoryMB_def)
  qed
  have err: "e = MemoryLimitError 32 (maxResolution (effective_maxMemoryMB opts))"
    if "snd (marchingCubes f opts) = Inl e" for e
    using that by (simp add: marchingCubes_def Let_def r split: if_splits)
  show ?thesis
    using r eq ok err by blast
qed

theorem falsy_resolution_defaults_to_32_witness:
  "(resolution \<lparr>resolution = Some 0, maxMemoryMB = None\<rparr> = None \<or>
    resolution \<lparr>resolution = Some 0, maxMemoryMB = None\<rparr> = Some 0) \<and>
   effective_resolution \<lparr>resolution = Some 0, maxMemoryMB = None\<rparr> = 32 \<and>
   (\<exists>m. snd (marchingCubes half_space \<lparr>resolution = Some 0, maxMemoryMB = None\<rparr>) = Inr m)"
proof -
  let ?opts = "\<lparr>resolution = Some 0, maxMemoryMB = None\<rparr>"
  have h: "resolution ?opts = None \<or> resolution ?opts = Some 0"
    by simp
  note inst = falsy_resolution_defaults_to_32 [OF h, of half_space]
  from inst have r: "effective_resolution ?opts = 32"
    by blast
  from inst have "maxMemoryMB ?opts = None \<longrightarrow> (\<exists>m. snd (marchingCubes half_space ?opts) = Inr m)"
    by blast
  then have "\<exists>m. snd (marchingCubes half_space ?opts) = Inr m"
    by simp
  with h r show ?thesis
    by blast
qed

subsection \<open>The corner-sign index\<close>

text \<open>
  C3 (as stated). The claim takes index 0 for a cube that is fully inside and index 255
  for one that is fully outside. A bit is set for a corner value \<open>\<le> 0\<close>, and negative
  distances are inside: the cube whose corners are all at distance 1, fully outside, has
  index 0, and the cube whose corners are all at distance \<open>-1\<close>, fully inside, has
  index 255.
\<close>

theorem cube_index_inside_outside_counterexample:
  "cube_index [1, 1, 1, 1, 1, 1, 1, 1] = 0 \<and>
   cube_index [-1, -1, -1, -1, -1, -1, -1, -1] = 255"
  by (simp add: cube_index_all_positive cube_index_all_negative)

text \<open>
  C3 (amended). For the eight corner values of a unit cube, bit \<open>i\<close> of the corner-sign
  index is set exactly when the value at corner \<open>i\<close> is \<open>\<le> 0\<close>; the index is below 256;
  it is 0 exactly when every corner value is positive (the cube is fully outside) and
  255 exactly when every corner value is \<open>\<le> 0\<close> (fully inside); a cube with index 0 or
  255 leaves the vertex, normal and index arrays as they are.
\<close>

theorem cube_index_corner_signs:
  assumes "length values = 8"
  shows "(\<forall>i<8. bit (cube_index values) i \<longleftrightarrow> values ! i \<le> 0) \<and>
         cube_index values < 256 \<and>
         (cube_index values = 0 \<longleftrightarrow> (\<forall>i<8. 0 < values ! i)) \<and>
         (cube_index values = 255 \<longleftrightarrow> (\<forall>i<8. values ! i \<le> 0)) \<and>
         (cube_index values = 0 \<or> cube_index values = 255 \<longrightarrow>
            marchCube values pos step offsets acc f = acc)"
proof -
  have n255: "(255::nat) = mask 8"
    by (simp add: mask_eq_exp_minus_1)
  have "cube_index values = 0 \<longleftrightarrow> (\<forall>i<8. i < length values \<longrightarrow> 0 < values ! i)"
    by (auto simp: bit_eq_iff bit_cube_index not_le)
  then have "cube_index values = 0 \<longleftrightarrow> (\<forall>i<8. 0 < values ! i)"
    using assms by simp
  moreover have "cube_index values = 255 \<longleftrightarrow> (\<forall>i<8. i < length values \<and> values ! i \<le> 0)"
    unfolding n255 by (auto simp: bit_eq_iff bit_cube_index bit_mask_iff)
  then have "cube_index values = 255 \<longleftrightarrow> (\<forall>i<8. values ! i \<le> 0)"
    using assms by simp
  moreover have "\<forall>i<8. bit (cube_index values) i \<longleftrightarrow> values ! i \<le> 0"
    using assms by (simp add: bit_cube_index)
  moreover have "cube_index values = 0 \<or> cube_index values = 255 \<longrightarrow>
            marchCube values pos step offsets acc f = acc"
    by (auto simp: marchCube_def)
  ultimately show ?thesis
    using cube_index_less by blast
qed

theorem cube_index_corner_signs_witness:
  "length [1, 1, 1, 1, 1, 1, 1, 1 :: real] = 8 \<and>
   cube_index [1, 1, 1, 1, 1, 1, 1, 1] = 0 \<and>
   marchCube [1, 1, 1, 1, 1, 1, 1, 1] origin unit_step cornerOffsets
     \<lparr>vertices = [], normals = [], indices = []\<rparr> half_space =
     \<lparr>vertices = [], normals = [], indices = []\<rparr>"
proof -
  have len: "length [1, 1, 1, 1, 1, 1, 1, 1 :: real] = 8"
    by simp
  from cube_index_corner_signs
         [OF len, of origin unit_step cornerOffsets
            "\<lparr>vertices = [], normals = [], indices = []\<rparr>" half_space]
  show ?thesis
    by (simp add: cube_index_all_positive)
qed

subsection \<open>Edge interpolation\<close>



section \<open>Properties of the STL export\<close>

lemma length_le_bytes32 [simp]: "length (le_bytes32 w) = 4"
  by (simp add: le_bytes32_def)

lemma length_le_bytes16 [simp]: "length (le_bytes16 w) = 2"
  by (simp add: le_bytes16_def)






lemma write_bytes_append:
  assumes "length pre = off" and "length bs \<le> length rest"
  shows "write_bytes off bs (pre @ rest) = Inr (pre @ bs @ drop (length bs) rest)"
  using assms by (simp add: write_bytes_def)

lemma write_floats_append:
  assumes "length pre = off" and "4 * length vs \<le> length rest"
  shows "write_floats f32 off vs (pre @ rest) =
           Inr (off + 4 * length vs,
                pre @ concat (map (\<lambda>v. le_bytes32 (f32 v)) vs) @ drop (4 * length vs) rest)"
  using assms
proof (induction vs arbitrary: off pre rest)
  case Nil
  then show ?case by simp
next
  case (Cons v vs)
  have w: "setFloat32 f32 off v (pre @ rest) = Inr ((pre @ le_bytes32 (f32 v)) @ drop 4 rest)"
    unfolding setFloat32_def using Cons.prems by (subst write_bytes_append) simp_all
  have "write_floats f32 (off + 4) vs ((pre @ le_bytes32 (f32 v)) @ drop 4 rest) =
          Inr (off + 4 + 4 * length vs,
               (pre @ le_bytes32 (f32 v)) @ concat (map (\<lambda>v. le_bytes32 (f32 v)) vs) @
               drop (4 * length vs) (drop 4 rest))"
    using Cons.prems by (intro Cons.IH) simp_all
  then show ?case
    by (simp add: w bind_err_def add.commute)
qed

lemma length_float_bytes [simp]:
  "length (concat (map (\<lambda>v. le_bytes32 (f32 v)) vs)) = 4 * length vs"
  by (induction vs) simp_all

lemma triangle_bytes:
  "concat (map (\<lambda>v. le_bytes32 (f32 v)) (triangle_floats mesh (3 * t))) @ [0, 0] =
     stl_triangle f32 mesh t"
  by (simp add: triangle_floats_def stl_triangle_def stl_vector_def Let_def)

lemma length_triangle_floats [simp]: "length (triangle_floats mesh i) = 12"
  by (simp add: triangle_floats_def Let_def)

lemma length_stl_triangle [simp]: "length (stl_triangle f32 mesh t) = 50"
  by (simp add: stl_triangle_def stl_vector_def Let_def)

lemma length_stl_header [simp]: "length (stl_header name) = 80"
  by (simp add: stl_header_def Let_def)

lemma le_bytes16_0: "le_bytes16 (of_nat 0) = [0, 0]"
  by (simp add: le_bytes16_def)

lemma write_triangles_layout:
  assumes "length (indices mesh) = 3 * T" and "k \<le> T" and "length pre = 84 + 50 * k"
  shows "write_triangles f32 mesh (3 * k) (84 + 50 * k) (pre @ replicate (50 * (T - k)) 0) =
           Inr (pre @ concat (map (stl_triangle f32 mesh) [k..<T]))"
  using assms(2,3)
proof (induction "T - k" arbitrary: k pre)
  case 0
  then have "k = T" by simp
  then show ?case
    using assms(1) by (subst write_triangles.simps) simp
next
  case (Suc d)
  then have k: "k < T" and d: "d = T - Suc k" by simp_all
  let ?rest = "replicate (50 * (T - k)) (0::byte)"
  have rest: "?rest = replicate 50 0 @ replicate (50 * (T - Suc k)) 0"
    using k by (simp add: replicate_add [symmetric] Suc_diff_Suc [symmetric] del: replicate_add)
  have floats: "write_floats f32 (84 + 50 * k) (triangle_floats mesh (3 * k)) (pre @ ?rest) =
      Inr (84 + 50 * k + 48,
           pre @ concat (map (\<lambda>v. le_bytes32 (f32 v)) (triangle_floats mesh (3 * k))) @
           drop 48 ?rest)"
    using Suc.prems k by (subst write_floats_append) simp_all
  have attr: "setUint16 (84 + 50 * k + 48) 0
        ((pre @ concat (map (\<lambda>v. le_bytes32 (f32 v)) (triangle_floats mesh (3 * k)))) @ drop 48 ?rest) =
      Inr ((pre @ stl_triangle f32 mesh k) @ replicate (50 * (T - Suc k)) 0)"
    unfolding setUint16_def le_bytes16_0
    using Suc.prems k
    by (subst write_bytes_append) (simp_all add: rest triangle_bytes [symmetric])
  have next_call: "write_triangles f32 mesh (3 * Suc k) (84 + 50 * Suc k)
        ((pre @ stl_triangle f32 mesh k) @ replicate (50 * (T - Suc k)) 0) =
      Inr ((pre @ stl_triangle f32 mesh k) @ concat (map (stl_triangle f32 mesh) [Suc k..<T]))"
    using Suc.prems k d by (intro Suc.hyps(1)) simp_all
  have i: "3 * k < length (indices mesh)"
    using k assms(1) by simp
  have a: "3 * k + 3 = 3 * Suc k" "84 + 50 * k + 48 + 2 = 84 + 50 * Suc k"
    by simp_all
  show ?case
    apply (subst write_triangles.simps)
    apply (simp only: i if_True floats bind_err_def sum.case prod.case)
    apply (simp only: append_assoc [symmetric] attr sum.case a next_call)
    using k by (simp add: upt_conv_Cons)
qed

lemma write_header_prefix:
  assumes "n \<le> length header" and "n \<le> L"
  shows "fold (\<lambda>i r. bind_err r (setUint8 i (of_char (header ! i)))) [0..<n]
           (Inr (replicate L 0)) =
         Inr (map (\<lambda>c. of_nat (of_char c)) (take n header) @ replicate (L - n) 0)"
  using assms
proof (induction n)
  case 0
  then show ?case by simp
next
  case (Suc n)
  let ?pre = "map (\<lambda>c. of_nat (of_char c) :: byte) (take n header)"
  have w: "setUint8 n (of_char (header ! n)) (?pre @ replicate (L - n) 0) =
      Inr (?pre @ [of_nat (of_char (header ! n))] @ drop 1 (replicate (L - n) 0))"
    unfolding setUint8_def using Suc.prems
    by (subst write_bytes_append) simp_all
  have "fold (\<lambda>i r. bind_err r (setUint8 i (of_char (header ! i)))) [0..<n]
           (Inr (replicate L 0)) = Inr (?pre @ replicate (L - n) 0)"
    using Suc.prems by (intro Suc.IH) simp_all
  then show ?case
    using Suc.prems by (simp add: bind_err_def w take_Suc_conv_app_nth)
qed

lemma write_header_layout:
  assumes "80 \<le> L"
  shows "write_header (''FIXED Marching Cubes - '' @ (case name of None \<Rightarrow> ''model'' | Some n \<Rightarrow> n))
           (replicate L 0) = Inr (stl_header name @ replicate (L - 80) 0)"
proof -
  let ?h = "''FIXED Marching Cubes - '' @ (case name of None \<Rightarrow> ''model'' | Some n \<Rightarrow> n)"
  let ?n = "min (length ?h) 80"
  have "write_header ?h (replicate L 0) =
          Inr (map (\<lambda>c. of_nat (of_char c)) (take ?n ?h) @ replicate (L - ?n) 0)"
    unfolding write_header_def using assms by (intro write_header_prefix) simp_all
  moreover have "take ?n ?h = take 80 ?h"
    by (simp add: min_def)
  moreover have "replicate (L - ?n) (0::byte) = replicate (80 - ?n) 0 @ replicate (L - 80) 0"
    using assms by (simp add: replicate_add [symmetric] del: replicate_add)
  ultimately show ?thesis
    by (simp add: stl_header_def Let_def del: take_append)
qed

lemma toSTL_layout:
  assumes "length (indices mesh) = 3 * triangleCount mesh"
  shows "toSTL f32 mesh name = Inr (stl_file f32 mesh name)"
proof -
  let ?T = "triangleCount mesh"
  have h: "write_header (''FIXED Marching Cubes - '' @ (case name of None \<Rightarrow> ''model'' | Some n \<Rightarrow> n))
             (replicate (84 + ?T * 50) 0) = Inr (stl_header name @ replicate (4 + ?T * 50) 0)"
    by (subst write_header_layout) simp_all
  have c: "setUint32 80 ?T (stl_header name @ replicate (4 + ?T * 50) 0) =
             Inr ((stl_header name @ le_bytes32 (of_nat ?T)) @ replicate (50 * (?T - 0)) 0)"
    unfolding setUint32_def by (subst write_bytes_append) (simp_all add: mult.commute)
  have t: "write_triangles f32 mesh (3 * 0) (84 + 50 * 0)
             ((stl_header name @ le_bytes32 (of_nat ?T)) @ replicate (50 * (?T - 0)) 0) =
           Inr ((stl_header name @ le_bytes32 (of_nat ?T)) @
                concat (map (stl_triangle f32 mesh) [0..<?T]))"
    using assms by (intro write_triangles_layout) simp_all
  show ?thesis
    unfolding toSTL_def Let_def h bind_err_def sum.case c
    using t by (simp add: stl_file_def)
qed








section \<open>Well-formedness of the grid and of the meshes\<close>

text \<open>
  The sample grid keeps its \<open>(resolution + 1)\<^sup>3\<close> entries, and the eight corners of every
  cube are read inside it, so that no corner value is \<open>undefined\<close>. The arrays of a mesh
  returned by \<open>marchingCubes\<close> form a triangle soup: the counts \<open>vertices.length / 3\<close> and
  \<open>indices.length / 3\<close> are whole numbers, and \<open>toSTL\<close> writes such a mesh completely.
\<close>

lemma getIndex_less:
  assumes "i \<le> res" and "j \<le> res" and "k \<le> res"
  shows "getIndex res i j k < (res + 1) ^ 3"
proof -
  let ?n = "res + 1"
  have "j + ?n * k \<le> res + ?n * res"
    using assms(2,3) by (intro add_mono mult_le_mono2)
  then have "j + ?n * k + 1 \<le> ?n * ?n"
    by simp
  then have b: "?n * (j + ?n * k + 1) \<le> ?n * (?n * ?n)"
    by (rule mult_le_mono2)
  have "i < ?n"
    using assms(1) by simp
  then have "i + ?n * (j + ?n * k) < ?n + ?n * (j + ?n * k)"
    by (rule add_strict_right_mono)
  also have "\<dots> = ?n * (j + ?n * k + 1)"
    by (simp only: distrib_left mult_1_right add.commute)
  finally have "i + ?n * (j + ?n * k) < ?n * (?n * ?n)"
    using b by (rule less_le_trans)
  then show ?thesis
    by (simp only: getIndex_def power3_eq_cube mult.assoc)
qed

lemma dvd_3_Suc3: "3 dvd Suc (Suc (Suc n)) \<longleftrightarrow> 3 dvd n"
  by presburger

lemma sample_grid_length: "length (grid (sample_grid f res mn step st)) = length (grid st)"
  unfolding sample_grid_def
  by (intro fold_invariant [where P = "\<lambda>s. length (grid s) = length (grid st)"])
    (simp_all add: sample_cell_def Let_def)

lemma push_triangle_grid: "grid (push_triangle f p0 p1 p2 st) = grid st"
  by (simp add: push_triangle_def Let_def)

lemma emit_triangles_grid: "grid (emit_triangles tris eps f st) = grid st"
  by (induction tris eps f st rule: emit_triangles.induct)
    (simp_all add: triangle_step_def push_triangle_grid split: option.splits)

lemma process_cubes_grid: "grid (process_cubes f res mn step st) = grid st"
  unfolding process_cubes_def
  by (intro fold_invariant [where P = "\<lambda>s. grid s = grid st"])
    (simp_all add: process_cube_def marchCube_def emit_triangles_grid Let_def)

lemma cube_corner_in_range:
  assumes "i < res" and "j < res" and "k < res"
    and "di \<le> 1" and "dj \<le> 1" and "dk \<le> 1"
    and "length (grid st) = (res + 1) ^ 3"
  shows "getIndex res (i + di) (j + dj) (k + dk) <
           length (grid (process_cubes f res mn step (sample_grid f res mn step st)))"
proof -
  have "i + di \<le> res" and "j + dj \<le> res" and "k + dk \<le> res"
    using assms(1-6) by linarith+
  then have "getIndex res (i + di) (j + dj) (k + dk) < (res + 1) ^ 3"
    by (rule getIndex_less)
  then show ?thesis
    using assms(7) by (simp only: process_cubes_grid sample_grid_length)
qed

lemma triangle_step_soup:
  "triangle_soup acc \<Longrightarrow> triangle_soup (triangle_step eps f e0 e1 e2 acc)"
  by (auto simp: triangle_step_def push_triangle_def triangle_soup_def Let_def dvd_3_Suc3
      split: option.splits)

lemma emit_triangles_soup:
  "triangle_soup acc \<Longrightarrow> triangle_soup (emit_triangles tris eps f acc)"
  by (induction tris eps f acc rule: emit_triangles.induct) (simp_all add: triangle_step_soup)

lemma marchCube_soup:
  "triangle_soup acc \<Longrightarrow> triangle_soup (marchCube values pos step offsets acc f)"
  by (simp add: marchCube_def Let_def emit_triangles_soup)

lemma process_cubes_soup:
  assumes "triangle_soup st"
  shows "triangle_soup (process_cubes f res mn step st)"
  unfolding process_cubes_def
proof (intro fold_invariant [where P = triangle_soup] assms)
  fix i j k and s :: run_state
  assume "triangle_soup s"
  then have "triangle_soup (marchCube cube pos step cornerOffsets s f)" for cube pos
    by (rule marchCube_soup)
  then show "triangle_soup (process_cube f res mn step k j i s)"
    by (simp add: process_cube_def Let_def triangle_soup_def)
qed

lemma sample_grid_arrays:
  "vertices (sample_grid f res mn step st) = vertices st \<and>
   normals (sample_grid f res mn step st) = normals st \<and>
   indices (sample_grid f res mn step st) = indices st"
  unfolding sample_grid_def
  by (intro fold_invariant [where P = "\<lambda>s. vertices s = vertices st \<and> normals s = normals st \<and>
        indices s = indices st"]) (simp_all add: sample_cell_def Let_def)

lemma marchingCubes_mesh_counts:
  assumes "snd (marchingCubes f opts) = Inr m"
  shows "length (vertices m) = 3 * vertexCount m"
    and "length (indices m) = 3 * triangleCount m"
    and "vertexCount m = 3 * triangleCount m"
proof -
  have soup: "triangle_soup (process_cubes f res mn step (sample_grid f res mn step st\<lparr>trace := tr\<rparr>))"
    if "vertices st = []" "normals st = []" "indices st = []" for res mn step tr and st :: run_state
    using that sample_grid_arrays [of f res mn step st]
    by (intro process_cubes_soup) (simp add: triangle_soup_def)
  from assms have "triangle_soup m \<and> vertexCount m = length (vertices m) div 3 \<and>
      triangleCount m = length (indices m) div 3"
    using soup by (auto simp: marchingCubes_def Let_def triangle_soup_def split: if_splits)
  then show "length (vertices m) = 3 * vertexCount m"
    and "length (indices m) = 3 * triangleCount m"
    and "vertexCount m = 3 * triangleCount m"
    by (auto simp: triangle_soup_def)
qed

lemma toSTL_of_marchingCubes:
  assumes "snd (marchingCubes f opts) = Inr m"
  shows "toSTL f32 m name = Inr (stl_file f32 m name)"
  using marchingCubes_mesh_counts(2) [OF assms] by (rule toSTL_layout)

end
